theory Spec2Isabelle
  imports Complex_Main
begin

section \<open>JavaScript values used by get-styles.ts\<close>

text \<open>
  A JavaScript number is modelled as an exact value or \<open>NaN\<close>: channels and parsed integers
  are \<open>int jsnum\<close>, scores, alpha values and contrast ratios are \<open>real jsnum\<close>.
  Rounding and overflow of IEEE doubles are idealised away (arithmetic is exact and
  unbounded); \<open>NaN\<close> and its propagation are kept, since \<open>parseInt\<close> and \<open>parseFloat\<close>
  produce it and every comparison with it is false. A value of the model is therefore
  the value of the program only where no rounding occurs: integers below \<open>2 ^ 53\<close> and
  their sums and products in that range. The theorems that settle the claims state
  an equality between numbers only where it holds of the doubles as well (small
  integers, \<open>NaN\<close>, two runs of one computation), and otherwise only which branch is
  taken and how two scores compare.
  Strings are lists of 8-bit characters, read as code units.
\<close>

datatype 'a jsnum = NaN | Val 'a

fun jsLess :: "('a::linorder) jsnum \<Rightarrow> 'a jsnum \<Rightarrow> bool" where
  "jsLess (Val x) (Val y) = (x < y)"
| "jsLess _ _ = False"

definition jsGreater :: "('a::linorder) jsnum \<Rightarrow> 'a jsnum \<Rightarrow> bool" where
  "jsGreater x y = jsLess y x"

fun jsLessEq :: "('a::linorder) jsnum \<Rightarrow> 'a jsnum \<Rightarrow> bool" where
  "jsLessEq (Val x) (Val y) = (x \<le> y)"
| "jsLessEq _ _ = False"

fun jsLift2 :: "('a \<Rightarrow> 'a \<Rightarrow> 'a) \<Rightarrow> 'a jsnum \<Rightarrow> 'a jsnum \<Rightarrow> 'a jsnum" where
  "jsLift2 f (Val x) (Val y) = Val (f x y)"
| "jsLift2 f _ _ = NaN"

definition jsAdd :: "real jsnum \<Rightarrow> real jsnum \<Rightarrow> real jsnum" where
  "jsAdd = jsLift2 (+)"

definition jsSub :: "real jsnum \<Rightarrow> real jsnum \<Rightarrow> real jsnum" where
  "jsSub = jsLift2 (-)"

definition jsMul :: "real jsnum \<Rightarrow> real jsnum \<Rightarrow> real jsnum" where
  "jsMul = jsLift2 (*)"

definition jsDiv :: "real jsnum \<Rightarrow> real jsnum \<Rightarrow> real jsnum" where
  \<comment> \<open>Only used with a non-zero divisor, see \<open>getContrast\<close>.\<close>
  "jsDiv = jsLift2 (/)"

definition jsPow :: "real jsnum \<Rightarrow> real jsnum \<Rightarrow> real jsnum" where
  \<comment> \<open>\<open>x ** y\<close>, used with a positive base.\<close>
  "jsPow = jsLift2 (powr)"

definition mathMax :: "real jsnum \<Rightarrow> real jsnum \<Rightarrow> real jsnum" where
  \<comment> \<open>\<open>Math.max\<close>: \<open>NaN\<close> if either argument is.\<close>
  "mathMax = jsLift2 max"

definition mathMin :: "real jsnum \<Rightarrow> real jsnum \<Rightarrow> real jsnum" where
  "mathMin = jsLift2 min"

fun toNumber :: "int jsnum \<Rightarrow> real jsnum" where
  "toNumber NaN = NaN"
| "toNumber (Val i) = Val (real_of_int i)"

subsection \<open>Characters\<close>

definition isDigit :: "char \<Rightarrow> bool" where
  "isDigit c = (c \<in> set ''0123456789'')"

definition isWhiteSpace :: "char \<Rightarrow> bool" where
  \<comment> \<open>White space and line terminators below U+0100: TAB, LF, VT, FF, CR, SP, NBSP.\<close>
  "isWhiteSpace c = (c \<in> set [CHR 0x09, CHR 0x0A, CHR 0x0B, CHR 0x0C, CHR 0x0D, CHR 0x20, CHR 0xA0])"

definition isLineTerminator :: "char \<Rightarrow> bool" where
  "isLineTerminator c = (c \<in> set [CHR 0x0A, CHR 0x0D])"

definition digitTable :: "(char \<times> nat) list" where
  "digitTable =
    [(CHR ''0'', 0), (CHR ''1'', 1), (CHR ''2'', 2), (CHR ''3'', 3), (CHR ''4'', 4),
     (CHR ''5'', 5), (CHR ''6'', 6), (CHR ''7'', 7), (CHR ''8'', 8), (CHR ''9'', 9),
     (CHR ''a'', 10), (CHR ''b'', 11), (CHR ''c'', 12), (CHR ''d'', 13), (CHR ''e'', 14),
     (CHR ''f'', 15),
     (CHR ''A'', 10), (CHR ''B'', 11), (CHR ''C'', 12), (CHR ''D'', 13), (CHR ''E'', 14),
     (CHR ''F'', 15)]"

definition digitValue :: "char \<Rightarrow> nat option" where
  "digitValue c = map_of digitTable c"

definition isRadixDigit :: "nat \<Rightarrow> char \<Rightarrow> bool" where
  "isRadixDigit radix c = (case digitValue c of None \<Rightarrow> False | Some v \<Rightarrow> v < radix)"

definition isHexDigit :: "char \<Rightarrow> bool" where
  \<comment> \<open>The class \<open>[0-9A-Fa-f]\<close>.\<close>
  "isHexDigit c = isRadixDigit 16 c"

definition digitsValue :: "nat \<Rightarrow> string \<Rightarrow> nat" where
  "digitsValue radix ds =
     foldl (\<lambda>acc c. acc * radix + (case digitValue c of None \<Rightarrow> 0 | Some v \<Rightarrow> v)) 0 ds"

definition upperTable :: "(char \<times> char) list" where
  "upperTable = zip ''abcdefghijklmnopqrstuvwxyz'' ''ABCDEFGHIJKLMNOPQRSTUVWXYZ''"

definition canonicalize :: "bool \<Rightarrow> char \<Rightarrow> char" where
  \<comment> \<open>Case folding of a regular expression with the \<open>i\<close> flag: upper case of the ASCII
      letters. A character outside ASCII never folds to an ASCII letter, and the patterns
      of this program hold ASCII only.\<close>
  "canonicalize ignoreCase c =
     (if ignoreCase then (case map_of upperTable c of None \<Rightarrow> c | Some u \<Rightarrow> u) else c)"

subsection \<open>String methods\<close>

definition trim :: "string \<Rightarrow> string" where
  "trim s = rev (dropWhile isWhiteSpace (rev (dropWhile isWhiteSpace s)))"

definition padStart :: "nat \<Rightarrow> char \<Rightarrow> string \<Rightarrow> string" where
  "padStart n c s = replicate (n - length s) c @ s"

definition slice :: "nat \<Rightarrow> nat \<Rightarrow> string \<Rightarrow> string" where
  \<comment> \<open>\<open>s.slice(i, j)\<close> for \<open>0 \<le> i \<le> j\<close>; indices past the end are clamped.\<close>
  "slice i j s = take (j - i) (drop i s)"

fun replaceFirstChar :: "char \<Rightarrow> string \<Rightarrow> string" where
  \<comment> \<open>\<open>s.replace(c, "")\<close> with a one-character string pattern: the first occurrence only.\<close>
  "replaceFirstChar c [] = []"
| "replaceFirstChar c (x # xs) = (if x = c then xs else x # replaceFirstChar c xs)"

definition hexDigit :: "nat \<Rightarrow> char" where
  "hexDigit d = ''0123456789abcdef'' ! (d mod 16)"

fun natToString16 :: "nat \<Rightarrow> string" where
  "natToString16 n = (if n < 16 then [hexDigit n] else natToString16 (n div 16) @ [hexDigit (n mod 16)])"

declare natToString16.simps [simp del]

definition toString16 :: "int \<Rightarrow> string" where
  \<comment> \<open>\<open>v.toString(16)\<close> of an integer.\<close>
  "toString16 v = (if v < 0 then ''-'' @ natToString16 (nat (- v)) else natToString16 (nat v))"

definition parseInt :: "string \<Rightarrow> nat \<Rightarrow> int jsnum" where
  \<comment> \<open>\<open>Number.parseInt(s, radix)\<close> for radix 10 or 16: leading white space, a sign, the
      \<open>0x\<close> prefix of radix 16, then the longest run of digits; \<open>NaN\<close> if that run is empty.
      The value is the exact integer; the program's is that integer rounded to a double,
      the same number when it is below \<open>2 ^ 53\<close>.\<close>
  "parseInt s radix =
     (let s1 = dropWhile isWhiteSpace s;
          neg = (take 1 s1 = ''-'');
          s2 = (if take 1 s1 = ''-'' \<or> take 1 s1 = ''+'' then drop 1 s1 else s1);
          s3 = (if radix = 16 \<and> (take 2 s2 = ''0x'' \<or> take 2 s2 = ''0X'') then drop 2 s2 else s2);
          ds = takeWhile (isRadixDigit radix) s3
      in if ds = [] then NaN
         else Val ((if neg then - 1 else 1) * int (digitsValue radix ds)))"

definition parseFloat :: "string \<Rightarrow> real jsnum" where
  \<comment> \<open>\<open>Number.parseFloat(s)\<close>: leading white space, a sign, the longest prefix that is a
      decimal literal (digits, a fraction, an exponent with at least one digit); \<open>NaN\<close> if
      there is neither an integer nor a fraction digit. The literal \<open>Infinity\<close> is left
      out: the only call passes a string that ends with a digit. The value is the exact
      decimal; the program's is the double nearest to it.\<close>
  "parseFloat s =
     (let s1 = dropWhile isWhiteSpace s;
          neg = (take 1 s1 = ''-'');
          s2 = (if take 1 s1 = ''-'' \<or> take 1 s1 = ''+'' then drop 1 s1 else s1);
          ip = takeWhile isDigit s2;
          r1 = dropWhile isDigit s2;
          fp = (if take 1 r1 = ''.'' then takeWhile isDigit (drop 1 r1) else []);
          r2 = (if take 1 r1 = ''.'' then dropWhile isDigit (drop 1 r1) else r1);
          hasExp = (take 1 r2 = ''e'' \<or> take 1 r2 = ''E'');
          r3 = drop 1 r2;
          eneg = (take 1 r3 = ''-'');
          r4 = (if take 1 r3 = ''-'' \<or> take 1 r3 = ''+'' then drop 1 r3 else r3);
          ed = takeWhile isDigit r4;
          mant = real (digitsValue 10 ip) + real (digitsValue 10 fp) / 10 ^ length fp;
          scaled = (if hasExp \<and> ed \<noteq> []
                    then (if eneg then mant / 10 ^ digitsValue 10 ed else mant * 10 ^ digitsValue 10 ed)
                    else mant)
      in if ip = [] \<and> fp = [] then NaN
         else Val (if neg then - scaled else scaled))"

section \<open>Color math\<close>

record rgb =
  R :: "int jsnum"
  G :: "int jsnum"
  B :: "int jsnum"

record rgba = rgb +
  A :: "real jsnum"

definition rgbToHex :: "int \<Rightarrow> int \<Rightarrow> int \<Rightarrow> string" where
  "rgbToHex rv gv bv = ''#'' @ concat (map (\<lambda>v. padStart 2 (CHR ''0'') (toString16 v)) [rv, gv, bv])"

definition parseHexColor :: "string \<Rightarrow> rgb" where
  "parseHexColor color =
     (let c = replaceFirstChar (CHR ''#'') color
      in if length c = 3
         then \<lparr> R = parseInt ([c ! 0] @ [c ! 0]) 16,
                G = parseInt ([c ! 1] @ [c ! 1]) 16,
                B = parseInt ([c ! 2] @ [c ! 2]) 16 \<rparr>
         else \<lparr> R = parseInt (slice 0 2 c) 16,
                G = parseInt (slice 2 4 c) 16,
                B = parseInt (slice 4 6 c) 16 \<rparr>)"

definition luminance :: "real jsnum \<Rightarrow> real jsnum" where
  "luminance c =
     (if jsLessEq c (Val 0.03928) then jsDiv c (Val 12.92)
      else jsPow (jsDiv (jsAdd c (Val 0.055)) (Val 1.055)) (Val 2.4))"

definition relLuminance :: "'a rgb_scheme \<Rightarrow> real jsnum" where
  \<comment> \<open>The expression bound to \<open>l1\<close> and \<open>l2\<close> in \<open>getContrast\<close>.\<close>
  "relLuminance col =
     jsAdd (jsAdd (jsMul (luminance (jsDiv (toNumber (R col)) (Val 255))) (Val 0.2126))
                  (jsMul (luminance (jsDiv (toNumber (G col)) (Val 255))) (Val 0.7152)))
           (jsMul (luminance (jsDiv (toNumber (B col)) (Val 255))) (Val 0.0722))"

definition getContrast :: "'a rgb_scheme \<Rightarrow> 'b rgb_scheme \<Rightarrow> real jsnum" where
  \<comment> \<open>For channels that are not negative both luminances are at least 0, so the divisor
      is at least 0.05 and the quotient is the one JavaScript computes.\<close>
  "getContrast fg bg =
     (let l1 = relLuminance fg; l2 = relLuminance bg
      in jsDiv (jsAdd (mathMax l1 l2) (Val 0.05)) (jsAdd (mathMin l1 l2) (Val 0.05)))"

section \<open>Regular expressions\<close>

text \<open>
  A backtracking matcher for the fragment the program's patterns use. \<open>rmatch\<close> returns
  every way a pattern can match a prefix of the input, in the order a backtracking
  engine tries them (greedy quantifiers take the longest run first, alternatives are
  tried left to right), each with the capture groups set on the way and the input left.
  The head of the list is the match the engine reports.
\<close>

datatype cls = Digit | Space | AnyChar | HexDigit

fun inClass :: "cls \<Rightarrow> char \<Rightarrow> bool" where
  "inClass Digit c = isDigit c"
| "inClass Space c = isWhiteSpace c"
| "inClass AnyChar c = (\<not> isLineTerminator c)"
| "inClass HexDigit c = isHexDigit c"

datatype regex =
    Lit string
  | Rep cls nat "nat option"
  | Seq regex regex
  | Alt regex regex
  | Opt regex
  | Group nat regex
  | EndOfInput

type_synonym captures = "(nat \<times> string) list"

fun matchLit :: "bool \<Rightarrow> string \<Rightarrow> string \<Rightarrow> string option" where
  "matchLit ic [] s = Some s"
| "matchLit ic (p # ps) [] = None"
| "matchLit ic (p # ps) (c # cs) =
     (if canonicalize ic p = canonicalize ic c then matchLit ic ps cs else None)"

fun matchRep :: "cls \<Rightarrow> nat \<Rightarrow> nat option \<Rightarrow> string \<Rightarrow> string list" where
  "matchRep k lo hi [] = (if lo = 0 then [[]] else [])"
| "matchRep k lo hi (c # cs) =
     (if inClass k c \<and> hi \<noteq> Some 0
      then matchRep k (lo - 1) (map_option (\<lambda>h. h - 1) hi) cs else [])
     @ (if lo = 0 then [c # cs] else [])"

fun rmatch :: "bool \<Rightarrow> regex \<Rightarrow> captures \<times> string \<Rightarrow> (captures \<times> string) list" where
  "rmatch ic (Lit l) (caps, s) =
     (case matchLit ic l s of None \<Rightarrow> [] | Some rest \<Rightarrow> [(caps, rest)])"
| "rmatch ic (Rep k lo hi) (caps, s) = map (\<lambda>rest. (caps, rest)) (matchRep k lo hi s)"
| "rmatch ic (Seq p q) st = concat (map (rmatch ic q) (rmatch ic p st))"
| "rmatch ic (Alt p q) st = rmatch ic p st @ rmatch ic q st"
| "rmatch ic (Opt p) st = rmatch ic p st @ [st]"
| "rmatch ic (Group n p) (caps, s) =
     map (\<lambda>(caps', rest). ((n, take (length s - length rest) s) # caps', rest))
         (rmatch ic p (caps, s))"
| "rmatch ic EndOfInput (caps, s) = (if s = [] then [(caps, s)] else [])"

definition matchAt :: "bool \<Rightarrow> regex \<Rightarrow> string \<Rightarrow> captures option" where
  \<comment> \<open>A match that starts at the first character: a pattern that begins with \<open>^\<close>.\<close>
  "matchAt ic p s = (case rmatch ic p ([], s) of [] \<Rightarrow> None | (caps, rest) # _ \<Rightarrow> Some caps)"

fun search :: "bool \<Rightarrow> regex \<Rightarrow> string \<Rightarrow> captures option" where
  \<comment> \<open>The leftmost match of a pattern without \<open>^\<close>.\<close>
  "search ic p [] = matchAt ic p []"
| "search ic p (c # s) =
     (case matchAt ic p (c # s) of Some caps \<Rightarrow> Some caps | None \<Rightarrow> search ic p s)"

definition seqs :: "regex list \<Rightarrow> regex" where
  "seqs ps = foldr Seq ps (Lit [])"

fun alts :: "regex \<Rightarrow> regex list \<Rightarrow> regex" where
  "alts p [] = p"
| "alts p (q # qs) = Alt p (alts q qs)"

definition spaces :: regex where
  \<comment> \<open>\<open>\s*\<close>\<close>
  "spaces = Rep Space 0 None"

definition digits :: regex where
  \<comment> \<open>\<open>\d+\<close>\<close>
  "digits = Rep Digit 1 None"

definition rgbPrefixRegex :: regex where
  \<comment> \<open>\<open>/^rgb/i\<close>, used with \<open>matchAt True\<close>\<close>
  "rgbPrefixRegex = Lit ''rgb''"

definition rgbRegex :: regex where
  \<comment> \<open>\<open>/rgba?\(\s*(\d+),\s*(\d+),\s*(\d+)(?:,\s*(\d?.?\d+))?\)/\<close>\<close>
  "rgbRegex = seqs
     [Lit ''rgb'', Opt (Lit ''a''), Lit ''('',
      spaces, Group 1 digits, Lit '','',
      spaces, Group 2 digits, Lit '','',
      spaces, Group 3 digits,
      Opt (seqs [Lit '','', spaces,
                 Group 4 (seqs [Rep Digit 0 (Some 1), Rep AnyChar 0 (Some 1), digits])]),
      Lit '')'']"

definition hexRegex :: regex where
  \<comment> \<open>\<open>/^#([0-9A-Fa-f]{3,6})$/\<close>, used with \<open>matchAt False\<close>\<close>
  "hexRegex = seqs [Lit ''#'', Group 1 (Rep HexDigit 3 (Some 6)), EndOfInput]"

definition phrase :: "string list \<Rightarrow> regex" where
  \<comment> \<open>Words separated by \<open>\s*\<close>, as in \<open>add\s*to\s*cart\<close>.\<close>
  "phrase ws = seqs (butlast (concat (map (\<lambda>w. [Lit w, spaces]) ws)))"

definition primaryCtaRegex :: regex where
  "primaryCtaRegex = Group 1 (alts
     (phrase [''add'', ''to'', ''cart''])
     [phrase [''add'', ''to'', ''bag''],
      phrase [''add'', ''to'', ''basket''],
      phrase [''buy'', ''now''],
      phrase [''checkout''],
      phrase [''purchase''],
      phrase [''subscribe''],
      phrase [''shop'', ''now''],
      phrase [''get'', ''started''],
      phrase [''order'', ''now'']])"

definition secondaryCtaRegex :: regex where
  "secondaryCtaRegex = Group 1 (alts
     (phrase [''add'', ''to'', ''wishlist''])
     [phrase [''add'', ''to'', ''wishlist'']])"

definition cookieRegex :: regex where
  "cookieRegex = Group 1 (alts
     (phrase [''accept'', ''cookies''])
     [phrase [''accept'', ''all'']])"

definition test :: "regex \<Rightarrow> string \<Rightarrow> bool" where
  \<comment> \<open>\<open>regex.test(s)\<close> of a pattern with the \<open>i\<close> flag and no anchor.\<close>
  "test p s = (search True p s \<noteq> None)"

definition parseRgbString :: "string \<Rightarrow> rgba" where
  "parseRgbString colorStr =
     (case search False rgbRegex colorStr of
        None \<Rightarrow> \<lparr> R = Val 0, G = Val 0, B = Val 0, A = Val 1 \<rparr>
      | Some m \<Rightarrow>
          \<lparr> R = (case map_of m 1 of None \<Rightarrow> NaN | Some t \<Rightarrow> parseInt t 10),
            G = (case map_of m 2 of None \<Rightarrow> NaN | Some t \<Rightarrow> parseInt t 10),
            B = (case map_of m 3 of None \<Rightarrow> NaN | Some t \<Rightarrow> parseInt t 10),
            A = (case map_of m 4 of None \<Rightarrow> Val 1
                 | Some t \<Rightarrow> if t = [] then Val 1 else parseFloat t) \<rparr>)"

section \<open>Data model\<close>

record ButtonStyle =
  backgroundColor :: string
  textColor :: string
  borderStyle :: string
  borderWidth :: string
  borderColor :: string
  borderRadius :: string
  textTransform :: string
  fontFamily :: string
  fontWeight :: string
  padding :: string

record Rect =
  width :: real
  height :: real

text \<open>
  The object that \<open>getButtons\<close> and \<open>findButtonBasedOnTheme\<close> build for an element: the
  style fields and the two fields read for scoring.
\<close>

record Candidate = ButtonStyle +
  boundingRect :: Rect
  textContent :: string

text \<open>
  The value of \<open>primaryButton\<close> is one of two object shapes: the constant
  \<open>DEFAULT_BUTTON_STYLE\<close>, which has the style fields only, or a candidate object as the
  page evaluation returned it. \<open>ownKeys\<close> lists the properties of either.
\<close>

datatype ButtonObject = Styled ButtonStyle | Measured Candidate



fun styleOf :: "ButtonObject \<Rightarrow> ButtonStyle" where
  "styleOf (Styled s) = s"
| "styleOf (Measured c) = ButtonStyle.truncate c"

record ExtractedShopStyles =
  palette :: "string list"
  pageBackgroundColor :: string
  primaryButton :: ButtonObject

definition DEFAULT_BUTTON_STYLE :: ButtonStyle where
  "DEFAULT_BUTTON_STYLE =
     \<lparr> backgroundColor = ''#000000'',
       textColor = ''#FFFFFF'',
       borderStyle = ''none'',
       borderWidth = ''0'',
       borderColor = ''#000000'',
       borderRadius = ''0'',
       textTransform = ''none'',
       fontFamily = ''system-ui, -apple-system, BlinkMacSystemFont, '' @ [CHR 0x27] @ ''Segoe UI''
         @ [CHR 0x27] @ '', Roboto, Oxygen, Ubuntu, Cantarell, '' @ [CHR 0x27] @ ''Open Sans''
         @ [CHR 0x27] @ '', '' @ [CHR 0x27] @ ''Helvetica Neue'' @ [CHR 0x27] @ '', sans-serif'',
       fontWeight = ''normal'',
       padding = ''0'' \<rparr>"

record Theme =
  name :: string
  schema_name :: string
  theme_store_id :: int
  buttonSelector :: string

definition THEMES :: "Theme list" where
  "THEMES =
     [\<lparr> name = ''Dawn'', schema_name = ''Dawn'', theme_store_id = 887,
        buttonSelector = ''.button--primary'' \<rparr>,
      \<lparr> name = ''Prestige'', schema_name = ''Prestige'', theme_store_id = 855,
        buttonSelector = ''.Button--primary'' \<rparr>,
      \<lparr> name = ''Broadcast'', schema_name = ''Broadcast'', theme_store_id = 868,
        buttonSelector = ''.btn--primary'' \<rparr>,
      \<lparr> name = ''Palo Alto'', schema_name = ''palo-alto'', theme_store_id = 777,
        buttonSelector = ''.btn--primary'' \<rparr>,
      \<lparr> name = ''Modular'', schema_name = ''modular'', theme_store_id = 849,
        buttonSelector = ''.btn--primary'' \<rparr>]"

section \<open>Button scorer\<close>

definition buttonColor :: "string \<Rightarrow> rgb option" where
  \<comment> \<open>The first block of \<open>calculateButtonScore\<close>: the value of \<open>btnRGB\<close> when the function
      goes on, \<open>None\<close> when it returns -1 at once.\<close>
  "buttonColor bgStr =
     (if matchAt True rgbPrefixRegex bgStr \<noteq> None then
        (let p = parseRgbString bgStr
         in if jsLess (A p) (Val 0.3) then None
            else Some \<lparr> R = R p, G = G p, B = B p \<rparr>)
      else if matchAt False hexRegex bgStr \<noteq> None then Some (parseHexColor bgStr)
      else if bgStr = ''transparent'' \<or> bgStr = ''rgba(0, 0, 0, 0)'' then None
      else Some \<lparr> R = Val 255, G = Val 255, B = Val 255 \<rparr>)"

definition keywordScore :: "string \<Rightarrow> real jsnum \<Rightarrow> real jsnum" where
  "keywordScore text sc =
     (if test primaryCtaRegex text then jsAdd sc (Val 25)
      else if test secondaryCtaRegex text then jsAdd sc (Val 15)
      else if test cookieRegex text then jsSub sc (Val 20)
      else sc)"

definition calculateButtonScore :: "Candidate \<Rightarrow> 'a rgb_scheme \<Rightarrow> real jsnum" where
  \<comment> \<open>The additions are exact here and rounded in the program.\<close>
  "calculateButtonScore btnStyle bgRGB =
     (case buttonColor (backgroundColor btnStyle) of
        None \<Rightarrow> Val (- 1)
      | Some btnRGB \<Rightarrow>
          (let contrastRatio = getContrast btnRGB bgRGB;
               s1 = jsAdd (Val (- 1)) (jsMul contrastRatio (Val 3));
               s2 = keywordScore (textContent btnStyle) s1;
               s3 = (if width (boundingRect btnStyle) > 120 \<and> height (boundingRect btnStyle) > 35
                     then jsAdd s2 (Val 5) else s2);
               s4 = (if length (trim (textContent btnStyle)) < 3 then jsSub s3 (Val 5) else s3)
           in s4))"

definition better :: "'a rgb_scheme \<Rightarrow> Candidate option \<times> real jsnum \<Rightarrow> Candidate
    \<Rightarrow> Candidate option \<times> real jsnum" where
  \<comment> \<open>The callback of \<open>buttons.reduce\<close> in \<open>getStyles\<close>.\<close>
  "better bgRGB best btnStyle =
     (let currentScore = calculateButtonScore btnStyle bgRGB
      in if jsGreater currentScore (snd best) then (Some btnStyle, currentScore) else best)"

definition bestButton :: "Candidate list \<Rightarrow> 'a rgb_scheme \<Rightarrow> Candidate option \<times> real jsnum" where
  "bestButton buttons bgRGB = foldl (better bgRGB) (None, Val (- 1)) buttons"

section \<open>The rendered page\<close>

text \<open>
  Exceptions are values: \<open>Inl\<close> of an error is a thrown exception or a rejected promise.
\<close>

datatype js_error = ReferenceError | TypeError | SyntaxError | FetchFailed | NoProductFound

text \<open>
  What the page evaluations of \<open>getStyles\<close> read from the browser: the global
  \<open>window.Shopify.theme\<close> (absent or with either field missing), the candidate objects
  that \<open>getButtons\<close> returns for the visible elements, in the order it lists them, the
  outcome of \<open>document.querySelector\<close> with the style object built for the element found
  (\<open>Inr None\<close> when no element matches, \<open>Inl SyntaxError\<close> when the text is no selector),
  and what the two image libraries report for the screenshot.

  A function passed to \<open>page.evaluate\<close> runs in the page and sees no variable of the
  host program (the comment in \<open>getStyles\<close> says so, and the first evaluation declares
  its own copy of the theme table for that reason). The closure of
  \<open>findButtonBasedOnTheme\<close> reads \<open>theme.buttonSelector\<close>, so \<open>theme\<close> there is whatever
  the page's own global scope binds to that name: nothing (the read throws
  \<open>ReferenceError\<close>), \<open>null\<close> or \<open>undefined\<close> (the property read throws \<open>TypeError\<close>), or a
  value whose \<open>buttonSelector\<close>, as \<open>querySelector\<close> converts it to a string, is the text
  given (\<open>undefined\<close> when the value has no such property).
\<close>

datatype PageGlobal = Undeclared | Nullish | ButtonSelector string

record ShopifyTheme =
  shop_schema_name :: "string option"
  shop_theme_store_id :: "int option"

record Page =
  shopifyTheme :: "ShopifyTheme option"
  visibleButtons :: "Candidate list"
  pageTheme :: PageGlobal
  querySelector :: "string \<Rightarrow> js_error + Candidate option"
  vibrantPalette :: "string list"
  dominantColor :: "int \<times> int \<times> int"

definition detectTheme :: "Page \<Rightarrow> string option" where
  \<comment> \<open>The value of \<open>theme\<close> returned by the first page evaluation of \<open>getStyles\<close>.\<close>
  "detectTheme page =
     (case shopifyTheme page of
        None \<Rightarrow> None
      | Some st \<Rightarrow>
          (case find (\<lambda>t. Some (schema_name t) = shop_schema_name st
                          \<or> Some (theme_store_id t) = shop_theme_store_id st) THEMES of
             None \<Rightarrow> None
           | Some t \<Rightarrow> if name t = [] then None else Some (name t)))"

definition getButtons :: "Page \<Rightarrow> Candidate list" where
  "getButtons page = visibleButtons page"

definition evaluateThemeButton :: "Page \<Rightarrow> js_error + Candidate option" where
  \<comment> \<open>The closure that \<open>findButtonBasedOnTheme\<close> passes to \<open>page.evaluate\<close>, run in the
      page: it receives nothing from the host, and \<open>theme\<close> is the page's own global.\<close>
  "evaluateThemeButton page =
     (case pageTheme page of
        Undeclared \<Rightarrow> Inl ReferenceError
      | Nullish \<Rightarrow> Inl TypeError
      | ButtonSelector sel \<Rightarrow> querySelector page sel)"

definition findButtonBasedOnTheme :: "Page \<Rightarrow> string option \<Rightarrow> js_error + Candidate option" where
  "findButtonBasedOnTheme page schemaName =
     (case schemaName of
        None \<Rightarrow> Inr None
      | Some sn \<Rightarrow>
          if sn = [] then Inr None
          else (case find (\<lambda>t. schema_name t = sn) THEMES of
                  None \<Rightarrow> Inr None
                | Some theme \<Rightarrow> evaluateThemeButton page))"

definition mergeButton :: "Candidate option \<Rightarrow> Candidate option \<Rightarrow> ButtonObject" where
  \<comment> \<open>\<open>themePrimaryButton ?? primaryButton ?? DEFAULT_BUTTON_STYLE\<close>\<close>
  "mergeButton themePrimaryButton primaryBtn =
     (case themePrimaryButton of
        Some b \<Rightarrow> Measured b
      | None \<Rightarrow> (case primaryBtn of Some b \<Rightarrow> Measured b | None \<Rightarrow> Styled DEFAULT_BUTTON_STYLE))"

definition extractStyles :: "Page \<Rightarrow> js_error + ExtractedShopStyles" where
  \<comment> \<open>The body of \<open>getStyles\<close> from the first page evaluation on, for a page that loaded
      and a screenshot that was taken and read. When \<open>findButtonBasedOnTheme\<close> rejects,
      \<open>Promise.all\<close> rejects and so does \<open>getStyles\<close>: its \<open>try\<close> has no \<open>catch\<close>.\<close>
  "extractStyles page =
     (let theme = detectTheme page;
          (rv, gv, bv) = dominantColor page;
          bgRGB = \<lparr> R = Val rv, G = Val gv, B = Val bv \<rparr>;
          buttons = getButtons page
      in case findButtonBasedOnTheme page theme of
           Inl e \<Rightarrow> Inl e
         | Inr themePrimaryButton \<Rightarrow>
             (let primaryBtn = fst (bestButton buttons bgRGB)
              in Inr \<lparr> palette = vibrantPalette page,
                       pageBackgroundColor = rgbToHex rv gv bv,
                       primaryButton = mergeButton themePrimaryButton primaryBtn \<rparr>))"

section \<open>Product page resolution\<close>

record Product =
  handle :: "string option"
  images :: "string list option"
  published_at :: "string option"

text \<open>
  The outcome of \<open>fetch(url).then(res => res.json())\<close>: the request fails, the body is
  not JSON, or the body is an object whose \<open>products\<close> property is a list or is missing.
\<close>

datatype FetchResult = NetworkError | NotJson | Body "Product list option"

text \<open>
  \<open>dateNow\<close> is \<open>Date.now()\<close> in milliseconds and \<open>dateParse\<close> the time value of
  \<open>new Date(s)\<close>, \<open>NaN\<close> for an invalid date; both are integers in the range of \<open>Date\<close>.
\<close>

record Network =
  fetchJson :: "string \<Rightarrow> FetchResult"
  dateNow :: int
  dateParse :: "string \<Rightarrow> int jsnum"

definition thirtyDays :: int where
  "thirtyDays = 30 * 24 * 60 * 60 * 1000"

definition qualifies :: "Network \<Rightarrow> string list \<Rightarrow> Product \<Rightarrow> bool" where
  \<comment> \<open>The callback of \<open>products.find\<close>, once \<open>product.images\<close> is known to be a list.\<close>
  "qualifies net imgs product =
     (length imgs > 0
      \<and> (case published_at product of
            None \<Rightarrow> False
          | Some d \<Rightarrow> d \<noteq> [] \<and> jsLess (dateParse net d) (Val (dateNow net - thirtyDays))))"

fun findProduct :: "Network \<Rightarrow> Product list \<Rightarrow> js_error + Product option" where
  "findProduct net [] = Inr None"
| "findProduct net (product # rest) =
     (case images product of
        None \<Rightarrow> Inl TypeError
      | Some imgs \<Rightarrow> if qualifies net imgs product then Inr (Some product)
                     else findProduct net rest)"

definition productPageAttempt :: "Network \<Rightarrow> string \<Rightarrow> js_error + string" where
  \<comment> \<open>The \<open>try\<close> block of \<open>getProductPageUrl\<close>; \<open>Inl\<close> is a thrown exception.\<close>
  "productPageAttempt net url =
     (case fetchJson net (url @ ''/products.json'') of
        NetworkError \<Rightarrow> Inl FetchFailed
      | NotJson \<Rightarrow> Inl SyntaxError
      | Body None \<Rightarrow> Inl TypeError
      | Body (Some products) \<Rightarrow>
          (case findProduct net products of
             Inl e \<Rightarrow> Inl e
           | Inr None \<Rightarrow> Inl NoProductFound
           | Inr (Some product) \<Rightarrow>
               (case handle product of
                  None \<Rightarrow> Inl NoProductFound
                | Some h \<Rightarrow> if h = [] then Inl NoProductFound
                            else Inr (url @ ''/products/'' @ h))))"

definition getProductPageUrl :: "Network \<Rightarrow> string \<Rightarrow> string" where
  "getProductPageUrl net url =
     (case productPageAttempt net url of Inl e \<Rightarrow> url | Inr target \<Rightarrow> target)"

record Options =
  useProductPage :: "bool option"
  removeOverlays :: "bool option"

definition DEFAULT_useProductPage :: bool where
  "DEFAULT_useProductPage = True"

definition targetUrl :: "Network \<Rightarrow> string \<Rightarrow> Options \<Rightarrow> string" where
  \<comment> \<open>\<open>(options.useProductPage ?? DEFAULT_OPTIONS.useProductPage) ? getProductPageUrl(url) : url\<close>\<close>
  "targetUrl net url options =
     (if (case useProductPage options of None \<Rightarrow> DEFAULT_useProductPage | Some u \<Rightarrow> u)
      then getProductPageUrl net url else url)"

definition getStyles :: "Network \<Rightarrow> (string \<Rightarrow> Page) \<Rightarrow> string \<Rightarrow> Options
    \<Rightarrow> js_error + ExtractedShopStyles" where
  \<comment> \<open>\<open>render\<close> is the page the browser shows for a URL at the time the styles are read.\<close>
  "getStyles net render url options = extractStyles (render (targetUrl net url options))"

section \<open>Auxiliary definitions for the proofs\<close>

definition passedOver :: "Network \<Rightarrow> Product \<Rightarrow> bool" where
  \<comment> \<open>The callback of \<open>find\<close> returns false for the product without throwing.\<close>
  "passedOver net q = (\<exists>imgs. images q = Some imgs \<and> \<not> qualifies net imgs q)"

definition validChannel :: "int jsnum \<Rightarrow> bool" where
  "validChannel x = (case x of NaN \<Rightarrow> False | Val v \<Rightarrow> 0 \<le> v \<and> v \<le> 255)"

definition validColor :: "'a rgb_scheme \<Rightarrow> bool" where
  \<comment> \<open>Every channel is an integer between 0 and 255.\<close>
  "validColor col = (validChannel (R col) \<and> validChannel (G col) \<and> validChannel (B col))"

definition pageBackground :: "Page \<Rightarrow> rgb" where
  "pageBackground page =
     \<lparr> R = Val (fst (dominantColor page)), G = Val (fst (snd (dominantColor page))),
       B = Val (snd (snd (dominantColor page))) \<rparr>"

text \<open>
  The first match of a pattern from a state, and the parts of \<open>rgbRegex\<close>.
\<close>

definition firstIs :: "bool \<Rightarrow> regex \<Rightarrow> captures \<times> string \<Rightarrow> captures \<times> string \<Rightarrow> bool" where
  "firstIs ic p st y = (\<exists>ys. rmatch ic p st = y # ys)"

definition alphaDigits :: regex where
  \<comment> \<open>\<open>\d?.?\d+\<close>\<close>
  "alphaDigits = seqs [Rep Digit 0 (Some 1), Rep AnyChar 0 (Some 1), digits]"

definition alphaPart :: regex where
  \<comment> \<open>\<open>(?:,\s*(\d?.?\d+))?\<close>\<close>
  "alphaPart = Opt (seqs [Lit '','', spaces, Group 4 alphaDigits])"

definition rgbTail :: regex where
  "rgbTail = Seq alphaPart (Seq (Lit '')'') (Lit []))"

definition channels :: regex where
  "channels =
     Seq spaces (Seq (Group 1 digits) (Seq (Lit '','')
       (Seq spaces (Seq (Group 2 digits) (Seq (Lit '','')
         (Seq spaces (Seq (Group 3 digits) rgbTail)))))))"

definition fallbackColor :: rgba where
  "fallbackColor = \<lparr> R = Val 0, G = Val 0, B = Val 0, A = Val 1 \<rparr>"

definition hex2 :: "int \<Rightarrow> string" where
  \<comment> \<open>The two characters \<open>rgbToHex\<close> writes for one channel.\<close>
  "hex2 v = padStart 2 (CHR ''0'') (toString16 v)"

section \<open>Example inputs\<close>

definition black :: rgb where
  "black = \<lparr> R = Val 0, G = Val 0, B = Val 0 \<rparr>"

definition sampleButton :: Candidate where
  "sampleButton =
     \<lparr> backgroundColor = ''rgb(0, 0, 0)'', textColor = ''rgb(255, 255, 255)'',
       borderStyle = ''none'', borderWidth = ''0px'', borderColor = ''rgb(0, 0, 0)'',
       borderRadius = ''4px'', textTransform = ''none'', fontFamily = ''Arial'',
       fontWeight = ''400'', padding = ''8px'',
       boundingRect = \<lparr> width = 200, height = 50 \<rparr>,
       textContent = ''add to cart'' \<rparr>"

definition themeButton :: Candidate where
  "themeButton = sampleButton \<lparr> backgroundColor := ''rgb(10, 10, 10)'', textContent := ''ok'' \<rparr>"

definition cookieButton :: Candidate where
  "cookieButton = sampleButton \<lparr> textContent := ''accept cookies'' \<rparr>"

definition laterButton :: Candidate where
  "laterButton = sampleButton \<lparr> textContent := ''buy now'', textColor := ''rgb(9, 9, 9)'' \<rparr>"

definition blankPage :: Page where
  "blankPage =
     \<lparr> shopifyTheme = None, visibleButtons = [], pageTheme = Undeclared,
       querySelector = (\<lambda>sel. Inr None),
       vibrantPalette = [], dominantColor = (0, 0, 0) \<rparr>"


definition dawnPage :: Page where
  \<comment> \<open>Theme Dawn, an element matching its selector, one visible button, no global
      \<open>theme\<close> in the page.\<close>
  "dawnPage = blankPage
     \<lparr> shopifyTheme := Some \<lparr> shop_schema_name = Some ''Dawn'', shop_theme_store_id = Some 887 \<rparr>,
       visibleButtons := [sampleButton],
       querySelector := (\<lambda>sel. if sel = ''.button--primary'' then Inr (Some themeButton)
                                else Inr None) \<rparr>"

definition dawnPageWithGlobal :: Page where
  \<comment> \<open>The same page when its own script declares \<open>theme = { buttonSelector: ".hero-cta" }\<close>
      and an element matches that selector.\<close>
  "dawnPageWithGlobal = dawnPage
     \<lparr> pageTheme := ButtonSelector ''.hero-cta'',
       querySelector := (\<lambda>sel. if sel = ''.hero-cta'' then Inr (Some themeButton) else Inr None) \<rparr>"

definition paloAltoPage :: Page where
  \<comment> \<open>Theme Palo Alto, an element matching its selector, one visible button.\<close>
  "paloAltoPage = blankPage
     \<lparr> shopifyTheme := Some \<lparr> shop_schema_name = Some ''palo-alto'', shop_theme_store_id = Some 777 \<rparr>,
       visibleButtons := [sampleButton],
       querySelector := (\<lambda>sel. if sel = ''.btn--primary'' then Inr (Some themeButton)
                                else Inr None) \<rparr>"

definition noProductPage :: Options where
  "noProductPage = \<lparr> useProductPage = Some False, removeOverlays = None \<rparr>"

definition day :: int where
  "day = 24 * 60 * 60 * 1000"

definition oldProduct :: Product where
  "oldProduct = \<lparr> handle = Some ''classic-tee'', images = Some [''tee.png''],
                   published_at = Some ''forty days ago'' \<rparr>"

definition newProduct :: Product where
  "newProduct = \<lparr> handle = Some ''fresh-cap'', images = Some [''cap.png''],
                   published_at = Some ''yesterday'' \<rparr>"

definition brokenProduct :: Product where
  \<comment> \<open>An entry without an \<open>images\<close> property.\<close>
  "brokenProduct = \<lparr> handle = Some ''no-images'', images = None,
                      published_at = Some ''forty days ago'' \<rparr>"

definition namelessProduct :: Product where
  \<comment> \<open>A qualifying entry without a \<open>handle\<close>.\<close>
  "namelessProduct = \<lparr> handle = None, images = Some [''mug.png''],
                        published_at = Some ''forty days ago'' \<rparr>"

definition sampleNetwork :: "Product list \<Rightarrow> Network" where
  \<comment> \<open>A shop whose feed is the given list, read on day 100.\<close>
  "sampleNetwork products =
     \<lparr> fetchJson = (\<lambda>u. if u = ''https://shop.example/products.json''
                          then Body (Some products) else NetworkError),
       dateNow = 100 * day,
       dateParse = (\<lambda>d. if d = ''forty days ago'' then Val (60 * day)
                          else if d = ''yesterday'' then Val (99 * day) else NaN) \<rparr>"

section \<open>Color math: hex round trip and symmetry of the contrast ratio\<close>

lemma hexDigit_table:
  "\<forall>d \<in> set [0..<16]. digitValue (hexDigit d) = Some d \<and> \<not> isWhiteSpace (hexDigit d)
     \<and> hexDigit d \<noteq> CHR ''-'' \<and> hexDigit d \<noteq> CHR ''+'' \<and> hexDigit d \<noteq> CHR ''x''
     \<and> hexDigit d \<noteq> CHR ''X''"
  by code_simp

lemma hexDigit_props:
  assumes "d < 16"
  shows "digitValue (hexDigit d) = Some d" "\<not> isWhiteSpace (hexDigit d)"
    "hexDigit d \<noteq> CHR ''-''" "hexDigit d \<noteq> CHR ''+''" "hexDigit d \<noteq> CHR ''x''"
    "hexDigit d \<noteq> CHR ''X''"
proof -
  have "d \<in> set [0..<16]" using assms by simp
  with hexDigit_table show "digitValue (hexDigit d) = Some d" "\<not> isWhiteSpace (hexDigit d)"
    "hexDigit d \<noteq> CHR ''-''" "hexDigit d \<noteq> CHR ''+''" "hexDigit d \<noteq> CHR ''x''"
    "hexDigit d \<noteq> CHR ''X''" by blast+
qed

lemma parseInt_two_hex:
  assumes "hi < 16" "lo < 16"
  shows "parseInt [hexDigit hi, hexDigit lo] 16 = Val (int (hi * 16 + lo))"
  using hexDigit_props [OF assms(1)] hexDigit_props [OF assms(2)] assms
  by (simp add: parseInt_def Let_def isRadixDigit_def digitsValue_def)

lemma hexDigit_zero: "hexDigit 0 = CHR ''0''"
  by (simp add: hexDigit_def)

lemma hex2_digits:
  assumes "0 \<le> v" "v \<le> 255"
  shows "hex2 v = [hexDigit (nat v div 16), hexDigit (nat v mod 16)]"
proof (cases "nat v < 16")
  case True
  then show ?thesis using assms
    by (simp add: hex2_def toString16_def natToString16.simps [of "nat v"] padStart_def hexDigit_zero)
next
  case False
  then have "nat v div 16 < 16" using assms by auto
  then show ?thesis using assms False
    by (simp add: hex2_def toString16_def natToString16.simps [of "nat v"]
        natToString16.simps [of "nat v div 16"] padStart_def)
qed

lemma hex2_byte:
  assumes "0 \<le> v" "v \<le> 255"
  shows "length (hex2 v) = 2" and "parseInt (hex2 v) 16 = Val v"
proof -
  have d: "nat v div 16 < 16" "nat v mod 16 < 16" using assms by auto
  show "length (hex2 v) = 2" by (simp add: hex2_digits [OF assms])
  have "parseInt (hex2 v) 16 = Val (int (nat v div 16 * 16 + nat v mod 16))"
    by (simp only: hex2_digits [OF assms] parseInt_two_hex [OF d])
  then show "parseInt (hex2 v) 16 = Val v" using assms by simp
qed

lemma rgbToHex_hex2: "rgbToHex rv gv bv = CHR ''#'' # hex2 rv @ hex2 gv @ hex2 bv"
  by (simp add: rgbToHex_def hex2_def)

lemma parseHexColor_six:
  assumes "length x = 2" "length y = 2" "length z = 2"
  shows "parseHexColor (CHR ''#'' # x @ y @ z)
           = \<lparr>R = parseInt x 16, G = parseInt y 16, B = parseInt z 16\<rparr>"
  using assms by (simp add: parseHexColor_def slice_def Let_def)

text \<open>
  C8. For all integers \<open>r\<close>, \<open>g\<close>, \<open>b\<close> between 0 and 255, decoding the hex string that
  \<open>rgbToHex\<close> writes gives back exactly these three channels.
\<close>

theorem hex_roundtrip:
  assumes "0 \<le> rv" "rv \<le> 255" "0 \<le> gv" "gv \<le> 255" "0 \<le> bv" "bv \<le> 255"
  shows "parseHexColor (rgbToHex rv gv bv) = \<lparr>R = Val rv, G = Val gv, B = Val bv\<rparr>"
  using assms by (simp add: rgbToHex_hex2 parseHexColor_six hex2_byte)

theorem hex_roundtrip_witness:
  "(0::int) \<le> 10 \<and> (10::int) \<le> 255 \<and> (0::int) \<le> 20 \<and> (20::int) \<le> 255
   \<and> (0::int) \<le> 255 \<and> (255::int) \<le> 255
   \<and> parseHexColor (rgbToHex 10 20 255) = \<lparr>R = Val 10, G = Val 20, B = Val 255\<rparr>"
  using hex_roundtrip [of 10 20 255] by simp

lemma jsLift2_commute: "(\<And>x y. f x y = f y x) \<Longrightarrow> jsLift2 f u v = jsLift2 f v u"
  by (cases u; cases v) simp_all

text \<open>
  C9. The contrast ratio is symmetric: for all colors \<open>fg\<close> and \<open>bg\<close>, also with a
  channel that is \<open>NaN\<close>, \<open>getContrast fg bg = getContrast bg fg\<close>.
\<close>

theorem getContrast_symmetric: "getContrast fg bg = getContrast bg fg"
  by (simp add: getContrast_def Let_def mathMax_def mathMin_def
        jsLift2_commute [of max] jsLift2_commute [of min] max.commute min.commute)

section \<open>Button scorer: rejection of transparent backgrounds\<close>

lemma buttonColor_transparent: "buttonColor ''transparent'' = None"
  by code_simp

lemma buttonColor_rgba_zero: "buttonColor ''rgba(0,0,0,0)'' = None"
  by code_simp

lemma buttonColor_rgba_zero_spaced: "buttonColor ''rgba(0, 0, 0, 0)'' = None"
  by code_simp

lemma buttonColor_low_alpha:
  "matchAt True rgbPrefixRegex s \<noteq> None \<Longrightarrow> jsLess (A (parseRgbString s)) (Val 0.3)
   \<Longrightarrow> buttonColor s = None"
  by (simp add: buttonColor_def Let_def)

text \<open>
  C3. A candidate whose \<open>backgroundColor\<close> passes the scorer's rgb test (\<open>/^rgb/i\<close>) and
  parses to an alpha below 0.3, or whose \<open>backgroundColor\<close> is \<open>transparent\<close> or
  \<open>rgba(0,0,0,0)\<close> (with or without the spaces the browser writes), scores exactly -1,
  whatever its other fields and whatever the page background.
\<close>

theorem low_alpha_rejected:
  assumes "(matchAt True rgbPrefixRegex (backgroundColor c) \<noteq> None
            \<and> jsLess (A (parseRgbString (backgroundColor c))) (Val 0.3))
           \<or> backgroundColor c = ''transparent''
           \<or> backgroundColor c = ''rgba(0,0,0,0)''
           \<or> backgroundColor c = ''rgba(0, 0, 0, 0)''"
  shows "calculateButtonScore c bgRGB = Val (- 1)"
proof -
  have "buttonColor (backgroundColor c) = None"
    using assms buttonColor_low_alpha buttonColor_transparent buttonColor_rgba_zero
      buttonColor_rgba_zero_spaced by metis
  then show ?thesis by (simp add: calculateButtonScore_def)
qed

theorem low_alpha_rejected_witness:
  "matchAt True rgbPrefixRegex ''rgba(10, 20, 30, 0.29)'' \<noteq> None
   \<and> jsLess (A (parseRgbString ''rgba(10, 20, 30, 0.29)'')) (Val 0.3)
   \<and> calculateButtonScore (sampleButton\<lparr>backgroundColor := ''rgba(10, 20, 30, 0.29)''\<rparr>) black = Val (- 1)
   \<and> calculateButtonScore (sampleButton\<lparr>backgroundColor := ''transparent''\<rparr>) black = Val (- 1)
   \<and> calculateButtonScore (sampleButton\<lparr>backgroundColor := ''rgba(0,0,0,0)''\<rparr>) black = Val (- 1)"
proof -
  have h: "matchAt True rgbPrefixRegex ''rgba(10, 20, 30, 0.29)'' \<noteq> None
     \<and> jsLess (A (parseRgbString ''rgba(10, 20, 30, 0.29)'')) (Val 0.3)"
    by code_simp
  show ?thesis
    using h low_alpha_rejected [of "sampleButton\<lparr>backgroundColor := ''rgba(10, 20, 30, 0.29)''\<rparr>" black]
      low_alpha_rejected [of "sampleButton\<lparr>backgroundColor := ''transparent''\<rparr>" black]
      low_alpha_rejected [of "sampleButton\<lparr>backgroundColor := ''rgba(0,0,0,0)''\<rparr>" black]
    by simp
qed

section \<open>Selection of the best button\<close>

lemma jsGreater_Val: "jsGreater x (Val v) = (\<exists>u. x = Val u \<and> v < u)"
  by (cases x) (simp_all add: jsGreater_def)

lemma jsGreater_NaN [simp]: "\<not> jsGreater NaN y" "\<not> jsGreater x NaN"
  by (cases y; simp add: jsGreater_def)+

text \<open>
  The fold of \<open>better\<close> from any running best whose score is a number: either nothing
  beat it, or the result is the first candidate that reaches the highest score.
\<close>

lemma fold_better:
  "foldl (better bg) (w0, Val v0) xs = (w, s) \<Longrightarrow>
     (w = w0 \<and> s = Val v0 \<and> (\<forall>c \<in> set xs. \<not> jsGreater (calculateButtonScore c bg) (Val v0)))
   \<or> (\<exists>i < length xs. w = Some (xs ! i) \<and> s = calculateButtonScore (xs ! i) bg
         \<and> jsGreater s (Val v0)
         \<and> (\<forall>j < length xs. \<not> jsGreater (calculateButtonScore (xs ! j) bg) s)
         \<and> (\<forall>j < i. calculateButtonScore (xs ! j) bg \<noteq> s))"
proof (induction xs arbitrary: w0 v0)
  case Nil
  then show ?case by simp
next
  case (Cons x xs)
  let ?sc = "\<lambda>c. calculateButtonScore c bg"
  show ?case
  proof (cases "jsGreater (?sc x) (Val v0)")
    case True
    then obtain v1 where v1: "?sc x = Val v1" "v0 < v1" by (auto simp: jsGreater_Val)
    have "better bg (w0, Val v0) x = (Some x, Val v1)"
      using True v1 by (simp add: better_def Let_def)
    with Cons.prems have f: "foldl (better bg) (Some x, Val v1) xs = (w, s)"
      by simp
    from Cons.IH [OF f] show ?thesis
    proof
      assume a: "w = Some x \<and> s = Val v1 \<and> (\<forall>c \<in> set xs. \<not> jsGreater (?sc c) (Val v1))"
      have "0 < length (x # xs) \<and> w = Some ((x # xs) ! 0) \<and> s = ?sc ((x # xs) ! 0)
            \<and> jsGreater s (Val v0)
            \<and> (\<forall>j < length (x # xs). \<not> jsGreater (?sc ((x # xs) ! j)) s)
            \<and> (\<forall>j < 0. ?sc ((x # xs) ! j) \<noteq> s)"
        using a v1 True by (auto simp: nth_Cons jsGreater_Val split: nat.splits)
      then show ?thesis by blast
    next
      assume "\<exists>i < length xs. w = Some (xs ! i) \<and> s = ?sc (xs ! i) \<and> jsGreater s (Val v1)
         \<and> (\<forall>j < length xs. \<not> jsGreater (?sc (xs ! j)) s) \<and> (\<forall>j < i. ?sc (xs ! j) \<noteq> s)"
      then obtain i where i: "i < length xs" "w = Some (xs ! i)" "s = ?sc (xs ! i)"
        "jsGreater s (Val v1)" "\<forall>j < length xs. \<not> jsGreater (?sc (xs ! j)) s"
        "\<forall>j < i. ?sc (xs ! j) \<noteq> s" by blast
      from i(4) obtain u where u: "s = Val u" "v1 < u" by (auto simp: jsGreater_Val)
      have "Suc i < length (x # xs) \<and> w = Some ((x # xs) ! Suc i) \<and> s = ?sc ((x # xs) ! Suc i)
            \<and> jsGreater s (Val v0)
            \<and> (\<forall>j < length (x # xs). \<not> jsGreater (?sc ((x # xs) ! j)) s)
            \<and> (\<forall>j < Suc i. ?sc ((x # xs) ! j) \<noteq> s)"
        using i u v1 by (auto simp: nth_Cons jsGreater_Val split: nat.splits)
      then show ?thesis by blast
    qed
  next
    case False
    have "better bg (w0, Val v0) x = (w0, Val v0)"
      using False by (simp add: better_def Let_def)
    with Cons.prems have f: "foldl (better bg) (w0, Val v0) xs = (w, s)"
      by simp
    from Cons.IH [OF f] show ?thesis
    proof
      assume "w = w0 \<and> s = Val v0 \<and> (\<forall>c \<in> set xs. \<not> jsGreater (?sc c) (Val v0))"
      then show ?thesis using False by simp
    next
      assume "\<exists>i < length xs. w = Some (xs ! i) \<and> s = ?sc (xs ! i) \<and> jsGreater s (Val v0)
         \<and> (\<forall>j < length xs. \<not> jsGreater (?sc (xs ! j)) s) \<and> (\<forall>j < i. ?sc (xs ! j) \<noteq> s)"
      then obtain i where i: "i < length xs" "w = Some (xs ! i)" "s = ?sc (xs ! i)"
        "jsGreater s (Val v0)" "\<forall>j < length xs. \<not> jsGreater (?sc (xs ! j)) s"
        "\<forall>j < i. ?sc (xs ! j) \<noteq> s" by blast
      from i(4) obtain u where u: "s = Val u" "v0 < u" by (auto simp: jsGreater_Val)
      have "Suc i < length (x # xs) \<and> w = Some ((x # xs) ! Suc i) \<and> s = ?sc ((x # xs) ! Suc i)
            \<and> jsGreater s (Val v0)
            \<and> (\<forall>j < length (x # xs). \<not> jsGreater (?sc ((x # xs) ! j)) s)
            \<and> (\<forall>j < Suc i. ?sc ((x # xs) ! j) \<noteq> s)"
        using i u False by (auto simp: nth_Cons jsGreater_Val split: nat.splits)
      then show ?thesis by blast
    qed
  qed
qed

text \<open>
  C4. Over any sequence of candidates the reduce selects no candidate exactly when no score
  exceeds the floor -1; otherwise it selects the candidate at the first position whose
  score is the maximum: no candidate scores strictly more, and no earlier candidate
  scores the same, so a tie keeps the earliest one.
\<close>

theorem bestButton_first_maximum:
  "(fst (bestButton buttons bg) = None
      \<longleftrightarrow> (\<forall>c \<in> set buttons. \<not> jsGreater (calculateButtonScore c bg) (Val (- 1))))
   \<and> (\<forall>b. fst (bestButton buttons bg) = Some b \<longrightarrow>
         (\<exists>i < length buttons. b = buttons ! i
            \<and> snd (bestButton buttons bg) = calculateButtonScore b bg
            \<and> jsGreater (calculateButtonScore b bg) (Val (- 1))
            \<and> (\<forall>j < length buttons.
                  \<not> jsGreater (calculateButtonScore (buttons ! j) bg) (calculateButtonScore b bg))
            \<and> (\<forall>j < i. calculateButtonScore (buttons ! j) bg \<noteq> calculateButtonScore b bg)))"
proof -
  obtain w s where ws: "bestButton buttons bg = (w, s)" by (cases "bestButton buttons bg")
  then have f: "foldl (better bg) (None, Val (- 1)) buttons = (w, s)"
    by (simp add: bestButton_def)
  from fold_better [OF f] show ?thesis
  proof
    assume "w = None \<and> s = Val (- 1)
      \<and> (\<forall>c \<in> set buttons. \<not> jsGreater (calculateButtonScore c bg) (Val (- 1)))"
    then show ?thesis using ws by simp
  next
    assume "\<exists>i < length buttons. w = Some (buttons ! i) \<and> s = calculateButtonScore (buttons ! i) bg
         \<and> jsGreater s (Val (- 1))
         \<and> (\<forall>j < length buttons. \<not> jsGreater (calculateButtonScore (buttons ! j) bg) s)
         \<and> (\<forall>j < i. calculateButtonScore (buttons ! j) bg \<noteq> s)"
    then obtain i where i: "i < length buttons" "w = Some (buttons ! i)"
        "s = calculateButtonScore (buttons ! i) bg" "jsGreater s (Val (- 1))"
        "\<forall>j < length buttons. \<not> jsGreater (calculateButtonScore (buttons ! j) bg) s"
        "\<forall>j < i. calculateButtonScore (buttons ! j) bg \<noteq> s" by blast
    have "buttons ! i \<in> set buttons" using i(1) by simp
    then have "\<not> (\<forall>c \<in> set buttons. \<not> jsGreater (calculateButtonScore c bg) (Val (- 1)))"
      using i(3,4) by blast
    then show ?thesis using ws i by auto
  qed
qed

theorem bestButton_first_maximum_witness:
  "fst (bestButton [cookieButton, sampleButton, laterButton] black) = Some sampleButton
   \<and> calculateButtonScore laterButton black = calculateButtonScore sampleButton black
   \<and> (\<exists>i < length [cookieButton, sampleButton, laterButton].
         sampleButton = [cookieButton, sampleButton, laterButton] ! i
         \<and> jsGreater (calculateButtonScore sampleButton black) (Val (- 1)))
   \<and> fst (bestButton [sampleButton \<lparr> backgroundColor := ''transparent'' \<rparr>] black) = None"
proof -
  have a: "fst (bestButton [cookieButton, sampleButton, laterButton] black) = Some sampleButton"
    by code_simp
  have b: "calculateButtonScore laterButton black = calculateButtonScore sampleButton black"
    by code_simp
  have c: "\<forall>c \<in> set [sampleButton \<lparr> backgroundColor := ''transparent'' \<rparr>].
             \<not> jsGreater (calculateButtonScore c black) (Val (- 1))"
    by code_simp
  show ?thesis
    using a b c bestButton_first_maximum [of "[cookieButton, sampleButton, laterButton]" black]
      bestButton_first_maximum [of "[sampleButton \<lparr> backgroundColor := ''transparent'' \<rparr>]" black]
    by blast
qed

lemma winner_score_number:
  assumes "fst (bestButton buttons bg) = Some b"
  shows "calculateButtonScore b bg \<noteq> NaN"
proof -
  obtain w s where ws: "bestButton buttons bg = (w, s)" by (cases "bestButton buttons bg")
  then have f: "foldl (better bg) (None, Val (- 1)) buttons = (w, s)"
    by (simp add: bestButton_def)
  from fold_better [OF f] ws assms
  have "jsGreater (calculateButtonScore b bg) (Val (- 1))" by auto
  then show ?thesis by (auto simp: jsGreater_Val)
qed

section \<open>Four-digit hex backgrounds\<close>

lemma jsLift2_NaN_right [simp]: "jsLift2 f x NaN = NaN"
  by (cases x) simp_all

lemma luminance_NaN: "luminance NaN = NaN"
  by (simp add: luminance_def jsPow_def jsDiv_def jsAdd_def)

lemma relLuminance_NaN_blue: "B col = NaN \<Longrightarrow> relLuminance col = NaN"
  by (simp add: relLuminance_def jsAdd_def jsMul_def jsDiv_def luminance_NaN)

lemma getContrast_NaN_blue: "B fg = NaN \<Longrightarrow> getContrast fg bg = NaN"
  by (simp add: getContrast_def Let_def relLuminance_NaN_blue mathMax_def mathMin_def jsAdd_def jsDiv_def)

lemma keywordScore_NaN: "keywordScore t NaN = NaN"
  by (simp add: keywordScore_def jsAdd_def jsSub_def)

lemma hex4_accepted:
  assumes "isHexDigit d1" "isHexDigit d2" "isHexDigit d3" "isHexDigit d4"
  shows "matchAt False hexRegex [CHR ''#'', d1, d2, d3, d4] = Some [(1, [d1, d2, d3, d4])]"
  using assms by (simp add: matchAt_def hexRegex_def seqs_def canonicalize_def)

lemma hex4_not_rgb: "matchAt True rgbPrefixRegex (CHR ''#'' # s) = None"
  by (simp add: matchAt_def rgbPrefixRegex_def canonicalize_def upperTable_def)

lemma parseInt_empty: "parseInt [] radix = NaN"
  by (simp add: parseInt_def)

lemma parseHexColor_hex4:
  "B (parseHexColor [CHR ''#'', d1, d2, d3, d4]) = NaN"
  by (simp add: parseHexColor_def slice_def parseInt_empty Let_def)

lemma buttonColor_hex4:
  assumes "isHexDigit d1" "isHexDigit d2" "isHexDigit d3" "isHexDigit d4"
  shows "buttonColor [CHR ''#'', d1, d2, d3, d4] = Some (parseHexColor [CHR ''#'', d1, d2, d3, d4])"
  using hex4_accepted [OF assms] by (simp add: buttonColor_def hex4_not_rgb)

lemma score_hex4:
  assumes "isHexDigit d1" "isHexDigit d2" "isHexDigit d3" "isHexDigit d4"
    and "backgroundColor c = [CHR ''#'', d1, d2, d3, d4]"
  shows "calculateButtonScore c bgRGB = NaN"
  using buttonColor_hex4 [OF assms(1-4)] assms(5)
  by (simp add: calculateButtonScore_def Let_def getContrast_NaN_blue parseHexColor_hex4
      jsMul_def jsAdd_def jsSub_def keywordScore_NaN)

text \<open>
  C10. A background of \<open>#\<close> and four hex digits passes the scorer's hex pattern, the blue
  channel that \<open>parseHexColor\<close> reads from positions 4 to 6 is \<open>NaN\<close>, so the contrast
  ratio and the score are \<open>NaN\<close>; \<open>NaN\<close> is greater than no running best, and such a
  candidate is never the selected winner.
\<close>

theorem short_hex_never_wins:
  assumes "isHexDigit d1" "isHexDigit d2" "isHexDigit d3" "isHexDigit d4"
    and "backgroundColor c = [CHR ''#'', d1, d2, d3, d4]"
  shows "matchAt False hexRegex (backgroundColor c) \<noteq> None
     \<and> buttonColor (backgroundColor c) = Some (parseHexColor (backgroundColor c))
     \<and> B (parseHexColor (backgroundColor c)) = NaN
     \<and> getContrast (parseHexColor (backgroundColor c)) bgRGB = NaN
     \<and> calculateButtonScore c bgRGB = NaN
     \<and> \<not> jsGreater (calculateButtonScore c bgRGB) best
     \<and> fst (bestButton buttons bgRGB) \<noteq> Some c"
proof -
  have s: "calculateButtonScore c bgRGB = NaN"
    using score_hex4 [OF assms] .
  have "fst (bestButton buttons bgRGB) \<noteq> Some c"
    using winner_score_number [of buttons bgRGB c] s by blast
  then show ?thesis
    using s assms(5) hex4_accepted [OF assms(1-4)] buttonColor_hex4 [OF assms(1-4)]
    by (simp add: parseHexColor_hex4 getContrast_NaN_blue)
qed

theorem short_hex_never_wins_witness:
  "isHexDigit (CHR ''a'') \<and> isHexDigit (CHR ''b'') \<and> isHexDigit (CHR ''c'') \<and> isHexDigit (CHR ''d'')
   \<and> B (parseHexColor ''#abcd'') = NaN
   \<and> calculateButtonScore (sampleButton \<lparr> backgroundColor := ''#abcd'' \<rparr>) black = NaN
   \<and> fst (bestButton [sampleButton \<lparr> backgroundColor := ''#abcd'' \<rparr>] black) \<noteq>
       Some (sampleButton \<lparr> backgroundColor := ''#abcd'' \<rparr>)"
proof -
  have h: "isHexDigit (CHR ''a'')" "isHexDigit (CHR ''b'')" "isHexDigit (CHR ''c'')"
    "isHexDigit (CHR ''d'')" by code_simp+
  have e: "backgroundColor (sampleButton \<lparr> backgroundColor := ''#abcd'' \<rparr>) = ''#abcd''"
    by simp
  show ?thesis
    using h short_hex_never_wins [OF h e, of black "Val (- 1)" "[sampleButton \<lparr> backgroundColor := ''#abcd'' \<rparr>]"]
    by simp
qed

section \<open>Keyword scoring\<close>

text \<open>
  For colors with channels between 0 and 255 every luminance lies between 0 and 1, the
  divisor of the contrast ratio is at least 0.05 and the ratio lies between 1 and 21.
\<close>

lemma luminance_range:
  assumes "0 \<le> v" "v \<le> 255"
  shows "\<exists>l. luminance (jsDiv (toNumber (Val v)) (Val 255)) = Val l \<and> 0 \<le> l \<and> l \<le> 1"
proof -
  let ?c = "real_of_int v / 255"
  have c: "0 \<le> ?c" "?c \<le> 1" using assms by simp_all
  show ?thesis
  proof (cases "?c \<le> 0.03928")
    case True
    then have "luminance (jsDiv (toNumber (Val v)) (Val 255)) = Val (?c / 12.92)"
      by (simp add: luminance_def jsDiv_def)
    moreover have "0 \<le> ?c / 12.92" "?c / 12.92 \<le> 1" using c by simp_all
    ultimately show ?thesis by blast
  next
    case False
    let ?b = "(?c + 0.055) / 1.055"
    have b: "0 \<le> ?b" "?b \<le> 1" using c by simp_all
    have "luminance (jsDiv (toNumber (Val v)) (Val 255)) = Val (?b powr 2.4)"
      using False by (simp add: luminance_def jsDiv_def jsAdd_def jsPow_def)
    moreover have "0 \<le> ?b powr 2.4" by simp
    moreover have "?b powr 2.4 \<le> 1" using b by (intro powr_le1) simp_all
    ultimately show ?thesis by blast
  qed
qed

lemma relLuminance_range:
  assumes "validColor col"
  shows "\<exists>l. relLuminance col = Val l \<and> 0 \<le> l \<and> l \<le> 1"
proof -
  from assms obtain rv gv bv where ch: "R col = Val rv" "G col = Val gv" "B col = Val bv"
    and rg: "0 \<le> rv" "rv \<le> 255" "0 \<le> gv" "gv \<le> 255" "0 \<le> bv" "bv \<le> 255"
    by (auto simp add: validColor_def validChannel_def split: jsnum.splits)
  from luminance_range [OF rg(1,2)] obtain lr where
    lr: "luminance (jsDiv (toNumber (Val rv)) (Val 255)) = Val lr" "0 \<le> lr" "lr \<le> 1" by blast
  from luminance_range [OF rg(3,4)] obtain lg where
    lg: "luminance (jsDiv (toNumber (Val gv)) (Val 255)) = Val lg" "0 \<le> lg" "lg \<le> 1" by blast
  from luminance_range [OF rg(5,6)] obtain lb where
    lb: "luminance (jsDiv (toNumber (Val bv)) (Val 255)) = Val lb" "0 \<le> lb" "lb \<le> 1" by blast
  have "relLuminance col = Val (lr * 0.2126 + lg * 0.7152 + lb * 0.0722)"
    by (simp only: relLuminance_def ch lr lg lb jsAdd_def jsMul_def jsLift2.simps)
  moreover have "0 \<le> lr * 0.2126 + lg * 0.7152 + lb * 0.0722"
    using lr lg lb by simp
  moreover have "lr * 0.2126 + lg * 0.7152 + lb * 0.0722 \<le> 1"
    using lr lg lb by simp
  ultimately show ?thesis by blast
qed

lemma getContrast_range:
  assumes "validColor fg" "validColor bg"
  shows "\<exists>k. getContrast fg bg = Val k \<and> 1 \<le> k \<and> k \<le> 21"
proof -
  from relLuminance_range [OF assms(1)] obtain l1 where
    l1: "relLuminance fg = Val l1" "0 \<le> l1" "l1 \<le> 1" by blast
  from relLuminance_range [OF assms(2)] obtain l2 where
    l2: "relLuminance bg = Val l2" "0 \<le> l2" "l2 \<le> 1" by blast
  let ?k = "(max l1 l2 + 0.05) / (min l1 l2 + 0.05)"
  have k: "getContrast fg bg = Val ?k"
    by (simp add: getContrast_def Let_def l1 l2 mathMax_def mathMin_def jsAdd_def jsDiv_def)
  have pos: "0 < min l1 l2 + 0.05" using l1 l2 by simp
  have "min l1 l2 + 0.05 \<le> max l1 l2 + 0.05" by simp
  then have lo: "1 \<le> ?k" using pos by (simp add: le_divide_eq)
  have "max l1 l2 + 0.05 \<le> 21 * (min l1 l2 + 0.05)" using l1 l2 by (simp add: max_def min_def)
  then have hi: "?k \<le> 21" using pos by (simp add: divide_le_eq)
  from k lo hi show ?thesis by blast
qed

lemma keyword_cart:
  "test primaryCtaRegex ''Add to Cart''" "length (trim ''Add to Cart'') = 11"
  by code_simp+

lemma keyword_cookies:
  "\<not> test primaryCtaRegex ''Accept Cookies''" "\<not> test secondaryCtaRegex ''Accept Cookies''"
  "test cookieRegex ''Accept Cookies''" "length (trim ''Accept Cookies'') = 14"
  by code_simp+

lemma keywordScore_Val:
  "keywordScore t (Val s) =
     (if test primaryCtaRegex t then Val (s + 25)
      else if test secondaryCtaRegex t then Val (s + 15)
      else if test cookieRegex t then Val (s - 20)
      else Val s)"
  by (simp add: keywordScore_def jsAdd_def jsSub_def)

lemma score_accepted:
  assumes "buttonColor (backgroundColor c) = Some col" "getContrast col bgRGB = Val k"
    "boundingRect c = \<lparr> width = 200, height = 50 \<rparr>"
  shows "calculateButtonScore (c \<lparr> textContent := ''Add to Cart'' \<rparr>) bgRGB = Val (3 * k + 29)"
    and "calculateButtonScore (c \<lparr> textContent := ''Accept Cookies'' \<rparr>) bgRGB = Val (3 * k - 16)"
  using assms
  by (simp_all add: calculateButtonScore_def Let_def keywordScore_Val keyword_cart keyword_cookies
      jsAdd_def jsMul_def jsSub_def)

text \<open>
  C5, as amended. Keyword scoring applies the bonus of the first pattern that matches,
  in the order primary (+25), secondary (+15), cookie consent (-20), and none when no
  pattern matches. The text \<open>Add to Cart\<close> takes the primary bonus and the text
  \<open>Accept Cookies\<close> the cookie penalty. For a candidate of size 200 by 50 whose
  background the scorer accepts as a color with channels between 0 and 255, on a page
  background with channels between 0 and 255, the contrast ratio is a number between 1
  and 21 and the first text scores strictly higher than the second with all other
  fields equal.
\<close>

theorem cart_beats_cookies:
  assumes "buttonColor (backgroundColor c) = Some col" "validColor col" "validColor bgRGB"
    "boundingRect c = \<lparr> width = 200, height = 50 \<rparr>"
  shows "keywordScore t sc =
           (if test primaryCtaRegex t then jsAdd sc (Val 25)
            else if test secondaryCtaRegex t then jsAdd sc (Val 15)
            else if test cookieRegex t then jsSub sc (Val 20)
            else sc)
     \<and> test primaryCtaRegex ''Add to Cart''
     \<and> \<not> test primaryCtaRegex ''Accept Cookies''
     \<and> \<not> test secondaryCtaRegex ''Accept Cookies''
     \<and> test cookieRegex ''Accept Cookies''
     \<and> (\<exists>k. getContrast col bgRGB = Val k \<and> 1 \<le> k \<and> k \<le> 21)
     \<and> jsGreater (calculateButtonScore (c \<lparr> textContent := ''Add to Cart'' \<rparr>) bgRGB)
          (calculateButtonScore (c \<lparr> textContent := ''Accept Cookies'' \<rparr>) bgRGB)"
proof -
  from getContrast_range [OF assms(2,3)] obtain k where
    k: "getContrast col bgRGB = Val k" "1 \<le> k" "k \<le> 21" by blast
  from score_accepted [OF assms(1) k(1) assms(4)]
  have "jsGreater (calculateButtonScore (c \<lparr> textContent := ''Add to Cart'' \<rparr>) bgRGB)
          (calculateButtonScore (c \<lparr> textContent := ''Accept Cookies'' \<rparr>) bgRGB)"
    by (simp add: jsGreater_def)
  then show ?thesis
    using k keyword_cart(1) keyword_cookies(1-3) by (auto simp add: keywordScore_def)
qed

theorem cart_beats_cookies_witness:
  "buttonColor (backgroundColor sampleButton) = Some black \<and> validColor black
   \<and> boundingRect sampleButton = \<lparr> width = 200, height = 50 \<rparr>
   \<and> calculateButtonScore (sampleButton \<lparr> textContent := ''Add to Cart'' \<rparr>) black = Val 32
   \<and> calculateButtonScore (sampleButton \<lparr> textContent := ''Accept Cookies'' \<rparr>) black = Val (- 13)
   \<and> jsGreater (calculateButtonScore (sampleButton \<lparr> textContent := ''Add to Cart'' \<rparr>) black)
          (calculateButtonScore (sampleButton \<lparr> textContent := ''Accept Cookies'' \<rparr>) black)"
proof -
  have h: "buttonColor (backgroundColor sampleButton) = Some black" "validColor black"
    "validColor black" "boundingRect sampleButton = \<lparr> width = 200, height = 50 \<rparr>"
    by code_simp+
  have e: "calculateButtonScore (sampleButton \<lparr> textContent := ''Add to Cart'' \<rparr>) black = Val 32"
    "calculateButtonScore (sampleButton \<lparr> textContent := ''Accept Cookies'' \<rparr>) black = Val (- 13)"
    by code_simp+
  show ?thesis using h e cart_beats_cookies [OF h, of "''Add to Cart''" "Val 0"] by simp
qed

text \<open>
  The claim as stated fails for a candidate the scorer rejects: with a transparent
  background both texts score -1.
\<close>

theorem cart_ties_cookies_when_rejected:
  "calculateButtonScore
     (sampleButton \<lparr> backgroundColor := ''transparent'', textContent := ''Add to Cart'' \<rparr>) black
     = Val (- 1)
   \<and> calculateButtonScore
     (sampleButton \<lparr> backgroundColor := ''transparent'', textContent := ''Accept Cookies'' \<rparr>) black
     = Val (- 1)
   \<and> boundingRect (sampleButton \<lparr> backgroundColor := ''transparent'' \<rparr>) = \<lparr> width = 200, height = 50 \<rparr>
   \<and> \<not> jsGreater
       (calculateButtonScore
          (sampleButton \<lparr> backgroundColor := ''transparent'', textContent := ''Add to Cart'' \<rparr>) black)
       (calculateButtonScore
          (sampleButton \<lparr> backgroundColor := ''transparent'', textContent := ''Accept Cookies'' \<rparr>) black)"
  by code_simp

section \<open>Style assembler\<close>

lemma extractStyles_cases:
  "extractStyles page =
     (case findButtonBasedOnTheme page (detectTheme page) of
        Inl e \<Rightarrow> Inl e
      | Inr t \<Rightarrow>
          Inr \<lparr> palette = vibrantPalette page,
                pageBackgroundColor = rgbToHex (fst (dominantColor page))
                  (fst (snd (dominantColor page))) (snd (snd (dominantColor page))),
                primaryButton =
                  mergeButton t (fst (bestButton (getButtons page) (pageBackground page))) \<rparr>)"
  by (cases "dominantColor page")
     (simp add: extractStyles_def Let_def pageBackground_def split: prod.splits sum.splits)





text \<open>
  The precedence of the merge: a button from \<open>findButtonBasedOnTheme\<close> wins over the
  scorer's winner, which wins over the default style; with no visible button and no
  theme the default is returned.
\<close>

lemma merge_precedence:
  "mergeButton (Some t) w = Measured t"
  "mergeButton None (Some b) = Measured b"
  "mergeButton None None = Styled DEFAULT_BUTTON_STYLE"
  by (simp_all add: mergeButton_def)

lemma default_when_nothing_found:
  assumes "getButtons page = []" "detectTheme page = None"
  shows "map_sum id primaryButton (extractStyles page) = Inr (Styled DEFAULT_BUTTON_STYLE)"
  using assms
  by (simp add: extractStyles_cases findButtonBasedOnTheme_def bestButton_def mergeButton_def)

text \<open>
  The theme lookup reaches the page only for the three themes whose \<open>name\<close> is also
  their \<open>schema_name\<close>, and there the outcome is that of the closure, which never sees
  the selector of the theme table: on a page without a global \<open>theme\<close> the call throws
  and \<open>getStyles\<close> returns no profile; on a page with one, the element that the page's
  own selector names is returned.
\<close>

lemma detectTheme_names:
  "detectTheme page = Some n \<Longrightarrow>
     n \<in> {''Dawn'', ''Prestige'', ''Broadcast'', ''Palo Alto'', ''Modular''}"
  by (auto simp add: detectTheme_def THEMES_def split: option.splits if_splits)

lemma theme_lookup_outcome:
  "findButtonBasedOnTheme page (detectTheme page) =
     (if detectTheme page \<in> {Some ''Dawn'', Some ''Prestige'', Some ''Broadcast''}
      then evaluateThemeButton page else Inr None)"
proof (cases "detectTheme page")
  case None
  then show ?thesis by (simp add: findButtonBasedOnTheme_def)
next
  case (Some n)
  from detectTheme_names [OF Some] show ?thesis
    by (auto simp add: Some findButtonBasedOnTheme_def THEMES_def)
qed

lemma dawn_page_rejects: "getStyles (sampleNetwork []) (\<lambda>u. dawnPage) ''https://shop.example'' noProductPage = Inl ReferenceError"
  by code_simp

lemma page_global_selects:
  "map_sum id primaryButton (getStyles (sampleNetwork []) (\<lambda>u. dawnPageWithGlobal) ''https://shop.example'' noProductPage) = Inr (Measured themeButton)"
  by code_simp

text \<open>
  C2. The theme button must override the scorer's winner whenever a known theme matched
  and its selector matched an element. On a Palo Alto page this fails: the page
  evaluation reports the theme by its \<open>name\<close>, \<open>findButtonBasedOnTheme\<close> looks that value
  up among the \<open>schema_name\<close>s, finds nothing and returns no button, so the scorer's
  winner is returned although the selector matches an element.
\<close>

theorem palo_alto_override_lost:
  "detectTheme paloAltoPage = Some ''Palo Alto''
   \<and> find (\<lambda>t. name t = ''Palo Alto'') THEMES
        = Some \<lparr> name = ''Palo Alto'', schema_name = ''palo-alto'', theme_store_id = 777,
                 buttonSelector = ''.btn--primary'' \<rparr>
   \<and> querySelector paloAltoPage ''.btn--primary'' = Inr (Some themeButton)
   \<and> findButtonBasedOnTheme paloAltoPage (detectTheme paloAltoPage) = Inr None
   \<and> getStyles (sampleNetwork []) (\<lambda>u. paloAltoPage) ''https://shop.example'' noProductPage = Inr \<lparr> palette = [], pageBackgroundColor = ''#000000'',
                    primaryButton = Measured sampleButton \<rparr>
   \<and> Measured sampleButton \<noteq> Measured themeButton"
  by code_simp

section \<open>Product page resolution\<close>

lemma findProduct_all_passed:
  "\<forall>q \<in> set ps. passedOver net q \<Longrightarrow> findProduct net ps = Inr None"
  by (induction ps) (auto simp add: passedOver_def)

lemma findProduct_first:
  assumes "\<forall>q \<in> set pre. passedOver net q"
  shows "findProduct net (pre @ p # post) =
           (case images p of
              None \<Rightarrow> Inl TypeError
            | Some imgs \<Rightarrow> if qualifies net imgs p then Inr (Some p)
                           else findProduct net post)"
  using assms by (induction pre) (auto simp add: passedOver_def split: option.splits)

lemma feed_split:
  "(\<forall>q \<in> set ps. passedOver net q)
   \<or> (\<exists>pre p post. ps = pre @ p # post \<and> (\<forall>q \<in> set pre. passedOver net q)
         \<and> (images p = None \<or> (\<exists>imgs. images p = Some imgs \<and> qualifies net imgs p)))"
proof (induction ps)
  case Nil
  then show ?case by simp
next
  case (Cons x xs)
  show ?case
  proof (cases "passedOver net x")
    case False
    then have "x # xs = [] @ x # xs \<and> (\<forall>q \<in> set []. passedOver net q)
        \<and> (images x = None \<or> (\<exists>imgs. images x = Some imgs \<and> qualifies net imgs x))"
      by (cases "images x") (auto simp add: passedOver_def)
    then show ?thesis by blast
  next
    case True
    from Cons.IH show ?thesis
    proof
      assume "\<forall>q \<in> set xs. passedOver net q"
      then show ?thesis using True by simp
    next
      assume "\<exists>pre p post. xs = pre @ p # post \<and> (\<forall>q \<in> set pre. passedOver net q)
         \<and> (images p = None \<or> (\<exists>imgs. images p = Some imgs \<and> qualifies net imgs p))"
      then obtain pre p post where h: "xs = pre @ p # post" "\<forall>q \<in> set pre. passedOver net q"
        "images p = None \<or> (\<exists>imgs. images p = Some imgs \<and> qualifies net imgs p)" by blast
      have "x # xs = (x # pre) @ p # post \<and> (\<forall>q \<in> set (x # pre). passedOver net q)
        \<and> (images p = None \<or> (\<exists>imgs. images p = Some imgs \<and> qualifies net imgs p))"
        using h True by simp
      then show ?thesis by blast
    qed
  qed
qed

lemma attempt_unfold:
  "fetchJson net (url @ ''/products.json'') = Body (Some ps) \<Longrightarrow>
   productPageAttempt net url =
     (case findProduct net ps of
        Inl e \<Rightarrow> Inl e
      | Inr None \<Rightarrow> Inl NoProductFound
      | Inr (Some product) \<Rightarrow>
          (case handle product of
             None \<Rightarrow> Inl NoProductFound
           | Some h \<Rightarrow> if h = [] then Inl NoProductFound else Inr (url @ ''/products/'' @ h)))"
  by (simp add: productPageAttempt_def)

text \<open>
  C6. \<open>getProductPageUrl\<close> always returns a string, and which one is decided by the
  first entry of the feed at which the search stops. When the fetch fails, the body is
  not JSON or has no product list, the original URL is returned. Otherwise the entries
  are tried in order; an entry is passed over when it has an image list and does not
  qualify, where it qualifies when it has at least one image and a non-empty
  \<open>published_at\<close> whose date is before now minus 30 days. If every entry is passed over,
  the original URL is returned. If the first entry not passed over has no image list,
  the exception is caught and the original URL is returned. If it qualifies, the result
  is the URL of that product, or the original URL when its handle is missing or empty.
  Every feed is in one of these three cases.
\<close>

theorem product_page_resolution:
  "(fetchJson net (url @ ''/products.json'') = NetworkError \<or> fetchJson net (url @ ''/products.json'') = NotJson \<or> fetchJson net (url @ ''/products.json'') = Body None
       \<longrightarrow> getProductPageUrl net url = url)
   \<and> (\<forall>ps. fetchJson net (url @ ''/products.json'') = Body (Some ps) \<and> (\<forall>q \<in> set ps. passedOver net q)
         \<longrightarrow> getProductPageUrl net url = url)
   \<and> (\<forall>pre p post. fetchJson net (url @ ''/products.json'') = Body (Some (pre @ p # post))
         \<and> (\<forall>q \<in> set pre. passedOver net q) \<and> images p = None
         \<longrightarrow> getProductPageUrl net url = url)
   \<and> (\<forall>pre p post imgs. fetchJson net (url @ ''/products.json'') = Body (Some (pre @ p # post))
         \<and> (\<forall>q \<in> set pre. passedOver net q) \<and> images p = Some imgs \<and> qualifies net imgs p
         \<longrightarrow> getProductPageUrl net url =
               (case handle p of
                  None \<Rightarrow> url
                | Some h \<Rightarrow> if h = [] then url else url @ ''/products/'' @ h))
   \<and> (\<forall>ps. (\<forall>q \<in> set ps. passedOver net q)
         \<or> (\<exists>pre p post. ps = pre @ p # post \<and> (\<forall>q \<in> set pre. passedOver net q)
               \<and> (images p = None \<or> (\<exists>imgs. images p = Some imgs \<and> qualifies net imgs p))))
   \<and> (\<forall>q. passedOver net q \<longleftrightarrow> (\<exists>imgs. images q = Some imgs \<and> \<not> qualifies net imgs q))
   \<and> (\<forall>imgs q. qualifies net imgs q \<longleftrightarrow>
         imgs \<noteq> [] \<and> (\<exists>d. published_at q = Some d \<and> d \<noteq> []
           \<and> jsLess (dateParse net d) (Val (dateNow net - 30 * 24 * 60 * 60 * 1000))))"
proof (intro conjI allI impI)
  show "getProductPageUrl net url = url"
    if "fetchJson net (url @ ''/products.json'') = NetworkError \<or> fetchJson net (url @ ''/products.json'') = NotJson \<or> fetchJson net (url @ ''/products.json'') = Body None"
    using that by (auto simp add: getProductPageUrl_def productPageAttempt_def)
  show "getProductPageUrl net url = url"
    if "fetchJson net (url @ ''/products.json'') = Body (Some ps) \<and> (\<forall>q \<in> set ps. passedOver net q)" for ps
    using that findProduct_all_passed [of ps net]
    by (simp add: getProductPageUrl_def attempt_unfold)
  show "getProductPageUrl net url = url"
    if "fetchJson net (url @ ''/products.json'') = Body (Some (pre @ p # post))
         \<and> (\<forall>q \<in> set pre. passedOver net q) \<and> images p = None" for pre p post
    using that findProduct_first [of pre net p post]
    by (simp add: getProductPageUrl_def attempt_unfold)
  show "getProductPageUrl net url =
          (case handle p of
             None \<Rightarrow> url
           | Some h \<Rightarrow> if h = [] then url else url @ ''/products/'' @ h)"
    if "fetchJson net (url @ ''/products.json'') = Body (Some (pre @ p # post))
         \<and> (\<forall>q \<in> set pre. passedOver net q) \<and> images p = Some imgs \<and> qualifies net imgs p"
    for pre p post imgs
    using that findProduct_first [of pre net p post]
    by (simp add: getProductPageUrl_def attempt_unfold split: option.splits)
  show "(\<forall>q \<in> set ps. passedOver net q)
         \<or> (\<exists>pre p post. ps = pre @ p # post \<and> (\<forall>q \<in> set pre. passedOver net q)
               \<and> (images p = None \<or> (\<exists>imgs. images p = Some imgs \<and> qualifies net imgs p)))"
    for ps
    by (rule feed_split)
  show "passedOver net q \<longleftrightarrow> (\<exists>imgs. images q = Some imgs \<and> \<not> qualifies net imgs q)" for q
    by (simp add: passedOver_def)
  show "qualifies net imgs q \<longleftrightarrow>
         imgs \<noteq> [] \<and> (\<exists>d. published_at q = Some d \<and> d \<noteq> []
           \<and> jsLess (dateParse net d) (Val (dateNow net - 30 * 24 * 60 * 60 * 1000)))"
    for imgs q
    by (cases "published_at q") (simp_all add: qualifies_def thirtyDays_def)
qed

theorem product_page_resolution_witness:
  "getProductPageUrl (sampleNetwork [newProduct, oldProduct]) ''https://shop.example''
     = ''https://shop.example/products/classic-tee''
   \<and> dateParse (sampleNetwork [newProduct, oldProduct]) ''forty days ago''
       = Val (dateNow (sampleNetwork [newProduct, oldProduct]) - 40 * day)
   \<and> dateParse (sampleNetwork [newProduct, oldProduct]) ''yesterday''
       = Val (dateNow (sampleNetwork [newProduct, oldProduct]) - 1 * day)
   \<and> getProductPageUrl (sampleNetwork [newProduct]) ''https://shop.example'' = ''https://shop.example''
   \<and> getProductPageUrl (sampleNetwork [brokenProduct, oldProduct]) ''https://shop.example''
       = ''https://shop.example''
   \<and> getProductPageUrl (sampleNetwork [namelessProduct, oldProduct]) ''https://shop.example''
       = ''https://shop.example''
   \<and> getProductPageUrl (sampleNetwork [newProduct, oldProduct]) ''https://down.example''
       = ''https://down.example''"
proof -
  let ?u = "''https://shop.example''"
  let ?n = "sampleNetwork [newProduct, oldProduct]"
  have q: "\<And>ps. passedOver (sampleNetwork ps) newProduct"
    "\<And>ps. qualifies (sampleNetwork ps) [''tee.png''] oldProduct"
    "\<And>ps. qualifies (sampleNetwork ps) [''mug.png''] namelessProduct"
    by (simp_all add: passedOver_def newProduct_def oldProduct_def namelessProduct_def
        qualifies_def sampleNetwork_def day_def thirtyDays_def)
  have i: "images oldProduct = Some [''tee.png'']" "handle oldProduct = Some ''classic-tee''"
    "images brokenProduct = None" "images namelessProduct = Some [''mug.png'']"
    "handle namelessProduct = None"
    by (simp_all add: oldProduct_def brokenProduct_def namelessProduct_def)
  have f: "\<And>ps. fetchJson (sampleNetwork ps) (?u @ ''/products.json'') = Body (Some ps)"
    by (simp add: sampleNetwork_def)
  have a: "getProductPageUrl ?n ?u = ?u @ ''/products/'' @ ''classic-tee''"
  proof -
    have "fetchJson ?n (?u @ ''/products.json'') = Body (Some ([newProduct] @ oldProduct # []))
        \<and> (\<forall>q \<in> set [newProduct]. passedOver ?n q)
        \<and> images oldProduct = Some [''tee.png''] \<and> qualifies ?n [''tee.png''] oldProduct"
      using f q i by simp
    from product_page_resolution [of ?n ?u, THEN conjunct2, THEN conjunct2, THEN conjunct2,
        THEN conjunct1, rule_format, OF this]
    show ?thesis using i by simp
  qed
  have b: "getProductPageUrl (sampleNetwork [newProduct]) ?u = ?u"
  proof -
    have "fetchJson (sampleNetwork [newProduct]) (?u @ ''/products.json'') = Body (Some [newProduct])
        \<and> (\<forall>q \<in> set [newProduct]. passedOver (sampleNetwork [newProduct]) q)"
      using f q by simp
    from product_page_resolution [of "sampleNetwork [newProduct]" ?u, THEN conjunct2,
        THEN conjunct1, rule_format, OF this]
    show ?thesis .
  qed
  have c: "getProductPageUrl (sampleNetwork [brokenProduct, oldProduct]) ?u = ?u"
  proof -
    have "fetchJson (sampleNetwork [brokenProduct, oldProduct]) (?u @ ''/products.json'')
            = Body (Some ([] @ brokenProduct # [oldProduct]))
        \<and> (\<forall>q \<in> set []. passedOver (sampleNetwork [brokenProduct, oldProduct]) q)
        \<and> images brokenProduct = None"
      using f i by simp
    from product_page_resolution [of "sampleNetwork [brokenProduct, oldProduct]" ?u,
        THEN conjunct2, THEN conjunct2, THEN conjunct1, rule_format, OF this]
    show ?thesis .
  qed
  have d: "getProductPageUrl (sampleNetwork [namelessProduct, oldProduct]) ?u = ?u"
  proof -
    have "fetchJson (sampleNetwork [namelessProduct, oldProduct]) (?u @ ''/products.json'')
            = Body (Some ([] @ namelessProduct # [oldProduct]))
        \<and> (\<forall>q \<in> set []. passedOver (sampleNetwork [namelessProduct, oldProduct]) q)
        \<and> images namelessProduct = Some [''mug.png'']
        \<and> qualifies (sampleNetwork [namelessProduct, oldProduct]) [''mug.png''] namelessProduct"
      using f q i by simp
    from product_page_resolution [of "sampleNetwork [namelessProduct, oldProduct]" ?u,
        THEN conjunct2, THEN conjunct2, THEN conjunct2, THEN conjunct1, rule_format, OF this]
    show ?thesis using i by simp
  qed
  have h: "fetchJson ?n (''https://down.example'' @ ''/products.json'') = NetworkError"
    by code_simp
  have e: "getProductPageUrl ?n ''https://down.example'' = ''https://down.example''"
    using product_page_resolution [of ?n "''https://down.example''", THEN conjunct1] h by simp
  have t: "dateParse ?n ''forty days ago'' = Val (dateNow ?n - 40 * day)"
    "dateParse ?n ''yesterday'' = Val (dateNow ?n - 1 * day)"
    by (simp_all add: sampleNetwork_def)
  show ?thesis using a b c d e t by simp
qed

section \<open>Parsing of rgb strings\<close>

lemma firstIs_Seq: "firstIs ic p st x \<Longrightarrow> firstIs ic q x y \<Longrightarrow> firstIs ic (Seq p q) st y"
  by (auto simp: firstIs_def)

lemma matchLit_prefix: "matchLit False l (l @ s) = Some s"
  by (induction l) (simp_all add: canonicalize_def)

lemma firstIs_Lit: "firstIs False (Lit l) (caps, l @ s) (caps, s)"
  by (simp add: firstIs_def matchLit_prefix)

lemma firstIs_Lit_Nil: "firstIs ic (Lit []) st st"
  by (cases st) (simp add: firstIs_def)

lemma matchRep_run:
  "\<forall>c \<in> set w. inClass k c \<Longrightarrow> lo \<le> length w \<Longrightarrow> rest = [] \<or> \<not> inClass k (hd rest)
   \<Longrightarrow> \<exists>ys. matchRep k lo None (w @ rest) = rest # ys"
proof (induction w arbitrary: lo)
  case Nil
  then show ?case by (cases rest) auto
next
  case (Cons c w)
  have "lo - 1 \<le> length w" using Cons.prems(2) by simp
  from Cons.IH [OF _ this Cons.prems(3)] Cons.prems(1)
  obtain ys where "matchRep k (lo - 1) None (w @ rest) = rest # ys" by auto
  then show ?case using Cons.prems(1) by simp
qed

lemma firstIs_Rep:
  "\<forall>c \<in> set w. inClass k c \<Longrightarrow> lo \<le> length w \<Longrightarrow> rest = [] \<or> \<not> inClass k (hd rest)
   \<Longrightarrow> firstIs ic (Rep k lo None) (caps, w @ rest) (caps, rest)"
  using matchRep_run [of w k lo rest] by (auto simp: firstIs_def)

lemma firstIs_Opt_skip: "rmatch ic p st = [] \<Longrightarrow> firstIs ic (Opt p) st st"
  by (simp add: firstIs_def)

lemma firstIs_Opt_take: "firstIs ic p st y \<Longrightarrow> firstIs ic (Opt p) st y"
  by (auto simp: firstIs_def)

lemma firstIs_Group:
  "firstIs ic p (caps, s) (caps', rest) \<Longrightarrow>
   firstIs ic (Group n p) (caps, s) ((n, take (length s - length rest) s) # caps', rest)"
  by (auto simp: firstIs_def)

lemma firstIs_matchAt: "firstIs ic p ([], s) (caps, rest) \<Longrightarrow> matchAt ic p s = Some caps"
  by (auto simp: firstIs_def matchAt_def)

lemma matchAt_search: "matchAt ic p s = Some caps \<Longrightarrow> search ic p s = Some caps"
  by (cases s) simp_all

lemma digit_not_space: "isDigit c \<Longrightarrow> \<not> isWhiteSpace c"
  by (auto simp: isDigit_def isWhiteSpace_def)

text \<open>One channel: optional white space, the digits, captured as group \<open>n\<close>.\<close>

lemma firstIs_channel:
  assumes "\<forall>c \<in> set w. isWhiteSpace c" "d \<noteq> []" "\<forall>c \<in> set d. isDigit c"
    and "rest = [] \<or> \<not> isDigit (hd rest)"
    and "firstIs ic q ((n, d) # caps, rest) y"
  shows "firstIs ic (Seq spaces (Seq (Group n digits) q)) (caps, w @ d @ rest) y"
proof -
  have hd: "\<not> isWhiteSpace (hd (d @ rest))"
    using assms(2,3) by (cases d) (auto simp: digit_not_space)
  have 1: "firstIs ic spaces (caps, w @ d @ rest) (caps, d @ rest)"
    unfolding spaces_def using assms(1) hd by (intro firstIs_Rep) auto
  have "firstIs ic digits (caps, d @ rest) (caps, rest)"
    unfolding digits_def using assms(2,3,4) by (intro firstIs_Rep) (auto simp: Suc_le_eq)
  from firstIs_Group [OF this, of n]
  have 2: "firstIs ic (Group n digits) (caps, d @ rest) ((n, d) # caps, rest)" by simp
  show ?thesis by (rule firstIs_Seq [OF 1 firstIs_Seq [OF 2 assms(5)]])
qed

lemma digit_table:
  "\<forall>c \<in> set ''0123456789''. isRadixDigit 10 c \<and> \<not> isWhiteSpace c \<and> c \<noteq> CHR ''-'' \<and> c \<noteq> CHR ''+''
      \<and> \<not> isLineTerminator c"
  by code_simp

lemma digit_props:
  assumes "isDigit c"
  shows "isRadixDigit 10 c" "\<not> isWhiteSpace c" "c \<noteq> CHR ''-''" "c \<noteq> CHR ''+''" "\<not> isLineTerminator c"
proof -
  have "c \<in> set ''0123456789''" using assms by (simp only: isDigit_def)
  with digit_table show "isRadixDigit 10 c" "\<not> isWhiteSpace c" "c \<noteq> CHR ''-''" "c \<noteq> CHR ''+''"
    "\<not> isLineTerminator c"
    by blast+
qed

lemma parseInt_digits:
  assumes "d \<noteq> []" "\<forall>c \<in> set d. isDigit c"
  shows "parseInt d 10 = Val (int (digitsValue 10 d))"
proof -
  obtain c cs where d: "d = c # cs" using assms(1) by (cases d) auto
  have c: "isDigit c" using assms(2) d by simp
  have 1: "dropWhile isWhiteSpace d = d" using d digit_props(2) [OF c] by simp
  have 2: "take 1 d \<noteq> ''-''" "take 1 d \<noteq> ''+''"
    using d digit_props(3,4) [OF c] by simp_all
  have 3: "\<forall>x \<in> set d. isRadixDigit 10 x"
    using assms(2) digit_props(1) by blast
  show ?thesis
    unfolding parseInt_def Let_def 1 using 2 3 assms(1)
    by (simp add: takeWhile_eq_all_conv [THEN iffD2])
qed

lemma rgbRegex_unfold:
  "rgbRegex = Seq (Lit ''rgb'') (Seq (Opt (Lit ''a'')) (Seq (Lit ''('') channels))"
  by (simp add: rgbRegex_def seqs_def channels_def rgbTail_def alphaPart_def alphaDigits_def)

lemma firstIs_channels:
  assumes w: "\<forall>c \<in> set w1. isWhiteSpace c" "\<forall>c \<in> set w2. isWhiteSpace c"
      "\<forall>c \<in> set w3. isWhiteSpace c"
    and d: "d1 \<noteq> []" "\<forall>c \<in> set d1. isDigit c" "d2 \<noteq> []" "\<forall>c \<in> set d2. isDigit c"
      "d3 \<noteq> []" "\<forall>c \<in> set d3. isDigit c"
    and rest: "rest = [] \<or> \<not> isDigit (hd rest)"
    and tail: "firstIs False rgbTail ([(3, d3), (2, d2), (1, d1)], rest) y"
  shows "firstIs False channels
           ([], w1 @ d1 @ '','' @ w2 @ d2 @ '','' @ w3 @ d3 @ rest) y"
proof -
  have comma: "\<not> isDigit (hd ('','' @ s))" for s by (simp add: isDigit_def)
  have c3: "firstIs False (Seq spaces (Seq (Group 3 digits) rgbTail))
             ([(2, d2), (1, d1)], w3 @ d3 @ rest) y"
    by (rule firstIs_channel [OF w(3) d(5,6) rest tail])
  have k3: "firstIs False (Seq (Lit '','') (Seq spaces (Seq (Group 3 digits) rgbTail)))
             ([(2, d2), (1, d1)], '','' @ w3 @ d3 @ rest) y"
    by (rule firstIs_Seq [OF firstIs_Lit c3])
  have c2: "firstIs False (Seq spaces (Seq (Group 2 digits)
             (Seq (Lit '','') (Seq spaces (Seq (Group 3 digits) rgbTail)))))
             ([(1, d1)], w2 @ d2 @ '','' @ w3 @ d3 @ rest) y"
    by (rule firstIs_channel [OF w(2) d(3,4) _ k3]) (simp add: isDigit_def)
  have k2: "firstIs False (Seq (Lit '','') (Seq spaces (Seq (Group 2 digits)
             (Seq (Lit '','') (Seq spaces (Seq (Group 3 digits) rgbTail))))))
             ([(1, d1)], '','' @ w2 @ d2 @ '','' @ w3 @ d3 @ rest) y"
    by (rule firstIs_Seq [OF firstIs_Lit c2])
  show ?thesis
    unfolding channels_def
    by (rule firstIs_channel [OF w(1) d(1,2) _ k2]) (simp add: isDigit_def)
qed

lemma firstIs_rgb_prefix:
  assumes "firstIs False channels ([], s) y"
  shows "firstIs False rgbRegex ([], ''rgb'' @ ''('' @ s) y"
proof -
  have "rmatch False (Lit ''a'') ([], ''('' @ s) = []"
    by (simp add: canonicalize_def)
  then have o: "firstIs False (Opt (Lit ''a'')) ([], ''('' @ s) ([], ''('' @ s)"
    by (rule firstIs_Opt_skip)
  have "firstIs False (Seq (Lit ''('') channels) ([], ''('' @ s) y"
    by (rule firstIs_Seq [OF firstIs_Lit assms])
  from firstIs_Seq [OF o this]
  have "firstIs False (Seq (Opt (Lit ''a'')) (Seq (Lit ''('') channels)) ([], ''('' @ s) y" .
  from firstIs_Seq [OF firstIs_Lit this]
  show ?thesis unfolding rgbRegex_unfold .
qed

lemma firstIs_rgba_prefix:
  assumes "firstIs False channels ([], s) y"
  shows "firstIs False rgbRegex ([], ''rgb'' @ ''a'' @ ''('' @ s) y"
proof -
  have o: "firstIs False (Opt (Lit ''a'')) ([], ''a'' @ ''('' @ s) ([], ''('' @ s)"
    by (rule firstIs_Opt_take [OF firstIs_Lit])
  have "firstIs False (Seq (Lit ''('') channels) ([], ''('' @ s) y"
    by (rule firstIs_Seq [OF firstIs_Lit assms])
  from firstIs_Seq [OF o this]
  have "firstIs False (Seq (Opt (Lit ''a'')) (Seq (Lit ''('') channels)) ([], ''a'' @ ''('' @ s) y" .
  from firstIs_Seq [OF firstIs_Lit this]
  show ?thesis unfolding rgbRegex_unfold .
qed

lemma firstIs_tail_no_alpha: "firstIs False rgbTail (caps, '')'') (caps, [])"
  by (simp add: rgbTail_def alphaPart_def seqs_def firstIs_def canonicalize_def)

lemma result_of_match:
  assumes "firstIs False rgbRegex ([], s) ((4, al) # [(3, d3), (2, d2), (1, d1)], rest)"
    "al \<noteq> []"
  shows "parseRgbString s = \<lparr> R = parseInt d1 10, G = parseInt d2 10, B = parseInt d3 10,
                              A = parseFloat al \<rparr>"
  using matchAt_search [OF firstIs_matchAt [OF assms(1)]] assms(2)
  by (simp add: parseRgbString_def)

lemma result_of_match_no_alpha:
  assumes "firstIs False rgbRegex ([], s) ([(3, d3), (2, d2), (1, d1)], rest)"
  shows "parseRgbString s = \<lparr> R = parseInt d1 10, G = parseInt d2 10, B = parseInt d3 10,
                              A = Val 1 \<rparr>"
  using matchAt_search [OF firstIs_matchAt [OF assms(1)]]
  by (simp add: parseRgbString_def)

lemma parseRgbString_rgb:
  assumes w: "\<forall>c \<in> set w1. isWhiteSpace c" "\<forall>c \<in> set w2. isWhiteSpace c"
      "\<forall>c \<in> set w3. isWhiteSpace c"
    and d: "d1 \<noteq> []" "\<forall>c \<in> set d1. isDigit c" "d2 \<noteq> []" "\<forall>c \<in> set d2. isDigit c"
      "d3 \<noteq> []" "\<forall>c \<in> set d3. isDigit c"
  shows "parseRgbString (''rgb('' @ w1 @ d1 @ '','' @ w2 @ d2 @ '','' @ w3 @ d3 @ '')'')
           = \<lparr> R = Val (int (digitsValue 10 d1)), G = Val (int (digitsValue 10 d2)),
               B = Val (int (digitsValue 10 d3)), A = Val 1 \<rparr>"
    and "parseRgbString (''rgba('' @ w1 @ d1 @ '','' @ w2 @ d2 @ '','' @ w3 @ d3 @ '')'')
           = \<lparr> R = Val (int (digitsValue 10 d1)), G = Val (int (digitsValue 10 d2)),
               B = Val (int (digitsValue 10 d3)), A = Val 1 \<rparr>"
proof -
  have c: "firstIs False channels ([], w1 @ d1 @ '','' @ w2 @ d2 @ '','' @ w3 @ d3 @ '')'')
             ([(3, d3), (2, d2), (1, d1)], [])"
    by (rule firstIs_channels [OF w d _ firstIs_tail_no_alpha]) (simp add: isDigit_def)
  have p: "parseInt d1 10 = Val (int (digitsValue 10 d1))"
    "parseInt d2 10 = Val (int (digitsValue 10 d2))"
    "parseInt d3 10 = Val (int (digitsValue 10 d3))"
    using d by (simp_all add: parseInt_digits)
  show "parseRgbString (''rgb('' @ w1 @ d1 @ '','' @ w2 @ d2 @ '','' @ w3 @ d3 @ '')'')
           = \<lparr> R = Val (int (digitsValue 10 d1)), G = Val (int (digitsValue 10 d2)),
               B = Val (int (digitsValue 10 d3)), A = Val 1 \<rparr>"
    using result_of_match_no_alpha [OF firstIs_rgb_prefix [OF c]] p by simp
  show "parseRgbString (''rgba('' @ w1 @ d1 @ '','' @ w2 @ d2 @ '','' @ w3 @ d3 @ '')'')
           = \<lparr> R = Val (int (digitsValue 10 d1)), G = Val (int (digitsValue 10 d2)),
               B = Val (int (digitsValue 10 d3)), A = Val 1 \<rparr>"
    using result_of_match_no_alpha [OF firstIs_rgba_prefix [OF c]] p by simp
qed

lemma firstIs_tail_alpha:
  assumes w: "\<forall>c \<in> set w4. isWhiteSpace c"
    and al: "al \<noteq> []" "\<not> isWhiteSpace (hd al)"
    and m: "firstIs False alphaDigits (caps, al @ '')'') (caps, '')'')"
  shows "firstIs False rgbTail (caps, '','' @ w4 @ al @ '')'') ((4, al) # caps, [])"
proof -
  have h: "al @ '')'' = [] \<or> \<not> inClass Space (hd (al @ '')''))"
    using al by simp
  have s: "firstIs False spaces (caps, w4 @ al @ '')'') (caps, al @ '')'')"
    unfolding spaces_def using w by (intro firstIs_Rep [OF _ _ h]) auto
  from firstIs_Group [OF m, of 4]
  have g: "firstIs False (Group 4 alphaDigits) (caps, al @ '')'') ((4, al) # caps, '')'')"
    by simp
  have "firstIs False (Seq (Lit '','') (Seq spaces (Seq (Group 4 alphaDigits) (Lit []))))
          (caps, '','' @ w4 @ al @ '')'') ((4, al) # caps, '')'')"
    by (rule firstIs_Seq [OF firstIs_Lit firstIs_Seq [OF s firstIs_Seq [OF g firstIs_Lit_Nil]]])
  then have o: "firstIs False alphaPart (caps, '','' @ w4 @ al @ '')'') ((4, al) # caps, '')'')"
    unfolding alphaPart_def seqs_def by (simp add: firstIs_Opt_take)
  have e: "firstIs False (Seq (Lit '')'') (Lit [])) ((4, al) # caps, '')'' @ []) ((4, al) # caps, [])"
    by (rule firstIs_Seq [OF firstIs_Lit firstIs_Lit_Nil])
  show ?thesis
    unfolding rgbTail_def using firstIs_Seq [OF o] e by simp
qed

lemma matchRep_zero: "matchRep k 0 (Some 0) s = [s]"
  by (cases s) simp_all

lemma alphaDigits_one:
  assumes "isDigit i"
  shows "firstIs False alphaDigits (caps, [i] @ '')'') (caps, '')'')"
  using assms digit_props(5) [OF assms]
  by (simp add: firstIs_def alphaDigits_def seqs_def digits_def isDigit_def isLineTerminator_def)

lemma alphaDigits_fraction:
  assumes "f \<noteq> []" "\<forall>c \<in> set f. isDigit c"
  shows "firstIs False alphaDigits (caps, (CHR ''.'' # f) @ '')'') (caps, '')'')"
proof -
  have a: "firstIs False (Rep Digit 0 (Some 1)) (caps, CHR ''.'' # f @ '')'') (caps, CHR ''.'' # f @ '')'')"
    by (simp add: firstIs_def isDigit_def)
  have b: "firstIs False (Rep AnyChar 0 (Some 1)) (caps, CHR ''.'' # f @ '')'') (caps, f @ '')'')"
    by (simp add: firstIs_def isLineTerminator_def matchRep_zero)
  have c: "firstIs False digits (caps, f @ '')'') (caps, '')'')"
    unfolding digits_def using assms by (intro firstIs_Rep) (auto simp: Suc_le_eq isDigit_def)
  show ?thesis
    unfolding alphaDigits_def seqs_def
    using firstIs_Seq [OF a firstIs_Seq [OF b firstIs_Seq [OF c firstIs_Lit_Nil]]] by simp
qed

lemma alphaDigits_decimal:
  assumes "isDigit i" "f \<noteq> []" "\<forall>c \<in> set f. isDigit c"
  shows "firstIs False alphaDigits (caps, (i # CHR ''.'' # f) @ '')'') (caps, '')'')"
proof -
  have a: "firstIs False (Rep Digit 0 (Some 1)) (caps, i # CHR ''.'' # f @ '')'') (caps, CHR ''.'' # f @ '')'')"
    using assms(1) by (simp add: firstIs_def isDigit_def matchRep_zero)
  have b: "firstIs False (Rep AnyChar 0 (Some 1)) (caps, CHR ''.'' # f @ '')'') (caps, f @ '')'')"
    by (simp add: firstIs_def isLineTerminator_def matchRep_zero)
  have c: "firstIs False digits (caps, f @ '')'') (caps, '')'')"
    unfolding digits_def using assms by (intro firstIs_Rep) (auto simp: Suc_le_eq isDigit_def)
  show ?thesis
    unfolding alphaDigits_def seqs_def
    using firstIs_Seq [OF a firstIs_Seq [OF b firstIs_Seq [OF c firstIs_Lit_Nil]]] by simp
qed

lemma takeWhile_digits: "\<forall>c \<in> set f. isDigit c \<Longrightarrow> takeWhile isDigit f = f"
  by (simp add: takeWhile_eq_all_conv)

lemma dropWhile_digits: "\<forall>c \<in> set f. isDigit c \<Longrightarrow> dropWhile isDigit f = []"
  by simp

lemma parseFloat_one:
  assumes "isDigit i"
  shows "parseFloat [i] = Val (real (digitsValue 10 [i]))"
  using assms digit_props(2-4) [OF assms]
  by (simp add: parseFloat_def Let_def digitsValue_def)

lemma parseFloat_fraction:
  assumes "f \<noteq> []" "\<forall>c \<in> set f. isDigit c"
  shows "parseFloat (CHR ''.'' # f) = Val (real (digitsValue 10 f) / 10 ^ length f)"
proof -
  have "\<not> isDigit (CHR ''.'')" "\<not> isWhiteSpace (CHR ''.'')"
    by (simp_all add: isDigit_def isWhiteSpace_def)
  then show ?thesis
    using assms by (simp add: parseFloat_def Let_def takeWhile_digits dropWhile_digits digitsValue_def)
qed

lemma parseFloat_decimal:
  assumes "isDigit i" "f \<noteq> []" "\<forall>c \<in> set f. isDigit c"
  shows "parseFloat (i # CHR ''.'' # f)
           = Val (real (digitsValue 10 [i]) + real (digitsValue 10 f) / 10 ^ length f)"
proof -
  have "\<not> isDigit (CHR ''.'')"
    by (simp_all add: isDigit_def)
  then show ?thesis
    using assms digit_props(2-4) [OF assms(1)]
    by (simp add: parseFloat_def Let_def takeWhile_digits dropWhile_digits)
qed

lemma parseRgbString_alpha:
  assumes w: "\<forall>c \<in> set w1. isWhiteSpace c" "\<forall>c \<in> set w2. isWhiteSpace c"
      "\<forall>c \<in> set w3. isWhiteSpace c"
    and d: "d1 \<noteq> []" "\<forall>c \<in> set d1. isDigit c" "d2 \<noteq> []" "\<forall>c \<in> set d2. isDigit c"
      "d3 \<noteq> []" "\<forall>c \<in> set d3. isDigit c"
    and w4: "\<forall>c \<in> set w4. isWhiteSpace c"
    and al: "al \<noteq> []" "\<not> isWhiteSpace (hd al)"
    and m: "\<And>caps. firstIs False alphaDigits (caps, al @ '')'') (caps, '')'')"
  shows "parseRgbString (''rgba('' @ w1 @ d1 @ '','' @ w2 @ d2 @ '','' @ w3 @ d3 @ '','' @ w4 @ al @ '')'')
           = \<lparr> R = Val (int (digitsValue 10 d1)), G = Val (int (digitsValue 10 d2)),
               B = Val (int (digitsValue 10 d3)), A = parseFloat al \<rparr>"
proof -
  have t: "firstIs False rgbTail ([(3, d3), (2, d2), (1, d1)], '','' @ w4 @ al @ '')'')
             ((4, al) # [(3, d3), (2, d2), (1, d1)], [])"
    by (rule firstIs_tail_alpha [OF w4 al m])
  have c: "firstIs False channels
             ([], w1 @ d1 @ '','' @ w2 @ d2 @ '','' @ w3 @ d3 @ '','' @ w4 @ al @ '')'')
             ((4, al) # [(3, d3), (2, d2), (1, d1)], [])"
    by (rule firstIs_channels [OF w d _ t]) (simp add: isDigit_def)
  have p: "parseInt d1 10 = Val (int (digitsValue 10 d1))"
    "parseInt d2 10 = Val (int (digitsValue 10 d2))"
    "parseInt d3 10 = Val (int (digitsValue 10 d3))"
    using d by (simp_all add: parseInt_digits)
  show ?thesis
    using result_of_match [OF firstIs_rgba_prefix [OF c] al(1)] p by simp
qed

lemma matchLit_sound: "matchLit False l s = Some rest \<Longrightarrow> s = l @ rest"
proof (induction l arbitrary: s)
  case Nil
  then show ?case by simp
next
  case (Cons a l)
  then show ?case
    by (cases s) (auto simp: canonicalize_def split: if_splits)
qed

lemma matchAt_rgb_prefix: "matchAt False rgbRegex s \<noteq> None \<Longrightarrow> \<exists>post. s = ''rgb'' @ post"
proof -
  assume a: "matchAt False rgbRegex s \<noteq> None"
  have "rmatch False (Lit ''rgb'') ([], s) \<noteq> []"
  proof
    assume "rmatch False (Lit ''rgb'') ([], s) = []"
    then have "rmatch False rgbRegex ([], s) = []"
      unfolding rgbRegex_unfold by (simp del: rmatch.simps(1) add: rmatch.simps(3))
    with a show False by (simp add: matchAt_def)
  qed
  then obtain rest where "matchLit False ''rgb'' s = Some rest"
    by (auto split: option.splits)
  from matchLit_sound [OF this] show ?thesis by blast
qed

lemma search_position:
  "search ic p s \<noteq> None \<Longrightarrow> \<exists>pre post. s = pre @ post \<and> matchAt ic p post \<noteq> None"
proof (induction s)
  case Nil
  then show ?case by simp
next
  case (Cons c s)
  show ?case
  proof (cases "matchAt ic p (c # s)")
    case None
    with Cons.prems have "search ic p s \<noteq> None" by simp
    from Cons.IH [OF this] obtain pre post where "s = pre @ post" "matchAt ic p post \<noteq> None"
      by blast
    then have "c # s = (c # pre) @ post \<and> matchAt ic p post \<noteq> None" by simp
    then show ?thesis by blast
  next
    case (Some a)
    then have "c # s = [] @ (c # s) \<and> matchAt ic p (c # s) \<noteq> None" by simp
    then show ?thesis by blast
  qed
qed

lemma no_rgb_fallback:
  assumes "\<not> (\<exists>pre post. s = pre @ ''rgb'' @ post)"
  shows "search False rgbRegex s = None"
proof (rule ccontr)
  assume "search False rgbRegex s \<noteq> None"
  from search_position [OF this] obtain pre post where
    "s = pre @ post" "matchAt False rgbRegex post \<noteq> None" by blast
  with matchAt_rgb_prefix [of post] assms show False by blast
qed

text \<open>
  C7, as amended. \<open>parseRgbString\<close> accepts \<open>rgb(r,g,b)\<close>, \<open>rgba(r,g,b)\<close> and
  \<open>rgba(r,g,b,a)\<close> with any white space after the opening parenthesis and after each
  comma, where \<open>r\<close>, \<open>g\<close>, \<open>b\<close> are digit strings of a value below \<open>2 ^ 53\<close> and \<open>a\<close>
  is a digit, a digit followed by a point and digits, or a point and digits. It returns
  the integers that the channels denote and, as alpha, 1 when \<open>a\<close> is absent, the digit
  when \<open>a\<close> is one digit, and otherwise what \<open>parseFloat\<close> reads from the text \<open>a\<close>.
  When the pattern matches at no position of the input, in particular when the input
  does not contain \<open>rgb\<close>, it returns \<open>{r:0, g:0, b:0, a:1}\<close>. The three examples of the
  specification hold.
\<close>

theorem parseRgbString_accepts:
  assumes w: "\<forall>c \<in> set w1. isWhiteSpace c" "\<forall>c \<in> set w2. isWhiteSpace c"
      "\<forall>c \<in> set w3. isWhiteSpace c" "\<forall>c \<in> set w4. isWhiteSpace c"
    and d: "d1 \<noteq> []" "\<forall>c \<in> set d1. isDigit c" "d2 \<noteq> []" "\<forall>c \<in> set d2. isDigit c"
      "d3 \<noteq> []" "\<forall>c \<in> set d3. isDigit c"
    and bound: "digitsValue 10 d1 < 2 ^ 53" "digitsValue 10 d2 < 2 ^ 53"
      "digitsValue 10 d3 < 2 ^ 53"
    and a: "isDigit i" "f \<noteq> []" "\<forall>c \<in> set f. isDigit c"
  shows "parseRgbString (''rgb('' @ w1 @ d1 @ '','' @ w2 @ d2 @ '','' @ w3 @ d3 @ '')'')
           = \<lparr> R = Val (int (digitsValue 10 d1)), G = Val (int (digitsValue 10 d2)),
               B = Val (int (digitsValue 10 d3)), A = Val 1 \<rparr>
     \<and> parseRgbString (''rgba('' @ w1 @ d1 @ '','' @ w2 @ d2 @ '','' @ w3 @ d3 @ '')'')
           = \<lparr> R = Val (int (digitsValue 10 d1)), G = Val (int (digitsValue 10 d2)),
               B = Val (int (digitsValue 10 d3)), A = Val 1 \<rparr>
     \<and> parseRgbString (''rgba('' @ w1 @ d1 @ '','' @ w2 @ d2 @ '','' @ w3 @ d3 @ '','' @ w4 @ [i] @ '')'')
           = \<lparr> R = Val (int (digitsValue 10 d1)), G = Val (int (digitsValue 10 d2)),
               B = Val (int (digitsValue 10 d3)), A = Val (real (digitsValue 10 [i])) \<rparr>
     \<and> parseRgbString (''rgba('' @ w1 @ d1 @ '','' @ w2 @ d2 @ '','' @ w3 @ d3 @ '','' @ w4
                          @ (i # CHR ''.'' # f) @ '')'')
           = \<lparr> R = Val (int (digitsValue 10 d1)), G = Val (int (digitsValue 10 d2)),
               B = Val (int (digitsValue 10 d3)), A = parseFloat (i # CHR ''.'' # f) \<rparr>
     \<and> parseRgbString (''rgba('' @ w1 @ d1 @ '','' @ w2 @ d2 @ '','' @ w3 @ d3 @ '','' @ w4
                          @ (CHR ''.'' # f) @ '')'')
           = \<lparr> R = Val (int (digitsValue 10 d1)), G = Val (int (digitsValue 10 d2)),
               B = Val (int (digitsValue 10 d3)), A = parseFloat (CHR ''.'' # f) \<rparr>
     \<and> parseFloat (i # CHR ''.'' # f) \<noteq> NaN \<and> parseFloat (CHR ''.'' # f) \<noteq> NaN
     \<and> (search False rgbRegex s = None \<longrightarrow> parseRgbString s = fallbackColor)
     \<and> (\<not> (\<exists>pre post. s = pre @ ''rgb'' @ post) \<longrightarrow> parseRgbString s = fallbackColor)
     \<and> fallbackColor = \<lparr> R = Val 0, G = Val 0, B = Val 0, A = Val 1 \<rparr>
     \<and> parseRgbString ''rgb(10, 20, 30)'' = \<lparr> R = Val 10, G = Val 20, B = Val 30, A = Val 1 \<rparr>
     \<and> parseRgbString ''rgba(1,2,3,0.5)'' = \<lparr> R = Val 1, G = Val 2, B = Val 3, A = Val 0.5 \<rparr>
     \<and> parseRgbString ''garbage'' = \<lparr> R = Val 0, G = Val 0, B = Val 0, A = Val 1 \<rparr>"
proof -
  note r = parseRgbString_rgb [OF w(1-3) d]
  have i: "\<not> isWhiteSpace (hd [i])" "\<not> isWhiteSpace (hd (i # CHR ''.'' # f))"
    using digit_props(2) [OF a(1)] by simp_all
  have dot: "\<not> isWhiteSpace (hd (CHR ''.'' # f))" by (simp add: isWhiteSpace_def)
  have a1: "parseRgbString (''rgba('' @ w1 @ d1 @ '','' @ w2 @ d2 @ '','' @ w3 @ d3 @ '','' @ w4 @ [i] @ '')'')
           = \<lparr> R = Val (int (digitsValue 10 d1)), G = Val (int (digitsValue 10 d2)),
               B = Val (int (digitsValue 10 d3)), A = Val (real (digitsValue 10 [i])) \<rparr>"
    using parseRgbString_alpha [OF w(1-3) d w(4) _ i(1) alphaDigits_one [OF a(1)]]
    by (simp add: parseFloat_one [OF a(1)])
  have a2: "parseRgbString (''rgba('' @ w1 @ d1 @ '','' @ w2 @ d2 @ '','' @ w3 @ d3 @ '','' @ w4
                          @ (i # CHR ''.'' # f) @ '')'')
           = \<lparr> R = Val (int (digitsValue 10 d1)), G = Val (int (digitsValue 10 d2)),
               B = Val (int (digitsValue 10 d3)), A = parseFloat (i # CHR ''.'' # f) \<rparr>"
    using parseRgbString_alpha [OF w(1-3) d w(4) _ i(2) alphaDigits_decimal [OF a]]
    by simp
  have a3: "parseRgbString (''rgba('' @ w1 @ d1 @ '','' @ w2 @ d2 @ '','' @ w3 @ d3 @ '','' @ w4
                          @ (CHR ''.'' # f) @ '')'')
           = \<lparr> R = Val (int (digitsValue 10 d1)), G = Val (int (digitsValue 10 d2)),
               B = Val (int (digitsValue 10 d3)), A = parseFloat (CHR ''.'' # f) \<rparr>"
    using parseRgbString_alpha [OF w(1-3) d w(4) _ dot alphaDigits_fraction [OF a(2,3)]]
    by simp
  have nn: "parseFloat (i # CHR ''.'' # f) \<noteq> NaN" "parseFloat (CHR ''.'' # f) \<noteq> NaN"
    by (simp_all add: parseFloat_decimal [OF a] parseFloat_fraction [OF a(2,3)])
  have n1: "search False rgbRegex s = None \<longrightarrow> parseRgbString s = fallbackColor"
    by (simp add: parseRgbString_def fallbackColor_def)
  have n2: "\<not> (\<exists>pre post. s = pre @ ''rgb'' @ post) \<longrightarrow> parseRgbString s = fallbackColor"
    using no_rgb_fallback [of s] by (simp add: parseRgbString_def fallbackColor_def)
  have fb: "fallbackColor = \<lparr> R = Val 0, G = Val 0, B = Val 0, A = Val 1 \<rparr>"
    by (simp add: fallbackColor_def)
  have e: "parseRgbString ''rgb(10, 20, 30)'' = \<lparr> R = Val 10, G = Val 20, B = Val 30, A = Val 1 \<rparr>"
    "parseRgbString ''rgba(1,2,3,0.5)'' = \<lparr> R = Val 1, G = Val 2, B = Val 3, A = Val 0.5 \<rparr>"
    "parseRgbString ''garbage'' = \<lparr> R = Val 0, G = Val 0, B = Val 0, A = Val 1 \<rparr>"
    by code_simp+
  show ?thesis
    using r a1 a2 a3 nn n1 n2 fb e by blast
qed

theorem parseRgbString_accepts_witness:
  "parseRgbString ''rgb( 10,  20, 30)'' = \<lparr> R = Val 10, G = Val 20, B = Val 30, A = Val 1 \<rparr>
   \<and> parseRgbString ''rgba( 10,  20, 30, 0.25)'' = \<lparr> R = Val 10, G = Val 20, B = Val 30, A = Val 0.25 \<rparr>
   \<and> parseRgbString ''rgba( 10,  20, 30, 0)'' = \<lparr> R = Val 10, G = Val 20, B = Val 30, A = Val 0 \<rparr>
   \<and> parseRgbString ''#0a141e'' = fallbackColor"
proof -
  have h: "\<forall>c \<in> set '' ''. isWhiteSpace c" "\<forall>c \<in> set ''  ''. isWhiteSpace c"
    "''10'' \<noteq> []" "\<forall>c \<in> set ''10''. isDigit c" "''20'' \<noteq> []" "\<forall>c \<in> set ''20''. isDigit c"
    "''30'' \<noteq> []" "\<forall>c \<in> set ''30''. isDigit c"
    "isDigit (CHR ''0'')" "''25'' \<noteq> []" "\<forall>c \<in> set ''25''. isDigit c"
    by code_simp+
  have v: "digitsValue 10 ''10'' = 10" "digitsValue 10 ''20'' = 20" "digitsValue 10 ''30'' = 30"
    "digitsValue 10 ''0'' = 0" "parseFloat ''0.25'' = Val 0.25"
    by code_simp+
  have b: "digitsValue 10 ''10'' < 2 ^ 53" "digitsValue 10 ''20'' < 2 ^ 53"
    "digitsValue 10 ''30'' < 2 ^ 53"
    by (simp_all add: v)
  have n: "\<not> (\<exists>pre post. ''#0a141e'' = pre @ ''rgb'' @ post)"
    by (auto simp: append_eq_Cons_conv Cons_eq_append_conv)
  show ?thesis
    using parseRgbString_accepts [OF h(1,2,1,1) h(3-8) b h(9-11), of "''#0a141e''"] v n
    by simp
qed

text \<open>
  The claim as stated fails for white space before a comma: the pattern allows white
  space only after the parenthesis and after a comma, and the fallback is returned.
\<close>

theorem space_before_comma_rejected:
  "parseRgbString ''rgb(10 , 20, 30)'' = \<lparr> R = Val 0, G = Val 0, B = Val 0, A = Val 1 \<rparr>
   \<and> parseRgbString ''rgb(10 , 20, 30)'' \<noteq> \<lparr> R = Val 10, G = Val 20, B = Val 30, A = Val 1 \<rparr>"
  by code_simp

end
